theory Spec2Isabelle
  imports Main "HOL-Library.Word"
begin

section \<open>Kubernetes core objects used by the operator\<close>

text \<open>
  Only the fields the operator code reads or writes are kept. A Go slice is a list;
  a nil slice and an empty slice are both the empty list (\<open>len\<close>, \<open>range\<close> and
  \<open>append\<close> do not distinguish them). A pointer that the code tests against
  \<open>nil\<close> is an \<open>option\<close>.
\<close>

record EnvVar =
  EnvVar_Name :: string
  EnvVar_Value :: string

record Volume =
  Volume_Name :: string
  Volume_ConfigMap :: "string option"

record VolumeMount =
  VolumeMount_Name :: string
  VolumeMount_MountPath :: string

section \<open>ComparableAttributes (type\_attributes.go)\<close>

record ComparableAttributes =
  AdditionalEnvVars :: "EnvVar list"
  AdditionalVolumes :: "Volume list"
  AdditionalVolumeMounts :: "VolumeMount list"
  SkipOwnerRef :: bool

text \<open>
  Every method has a pointer receiver that may be nil, and mutates the receiver in
  place: the model takes the receiver as an option and returns it updated.
\<close>

definition GetAdditionalEnvVars :: "ComparableAttributes option \<Rightarrow> EnvVar list" where
  "GetAdditionalEnvVars a = (case a of None \<Rightarrow> [] | Some x \<Rightarrow> AdditionalEnvVars x)"

definition AppendAdditionalEnvVar ::
  "ComparableAttributes option \<Rightarrow> EnvVar \<Rightarrow> ComparableAttributes option" where
  "AppendAdditionalEnvVar a envVar =
     (case a of
        None \<Rightarrow> None
      | Some x \<Rightarrow> Some (x\<lparr>AdditionalEnvVars := AdditionalEnvVars x @ [envVar]\<rparr>))"

definition AppendAdditionalEnvVarIfNotExists ::
  "ComparableAttributes option \<Rightarrow> EnvVar \<Rightarrow> ComparableAttributes option" where
  "AppendAdditionalEnvVarIfNotExists a envVar =
     (if a = None then a
      else if EnvVar_Name envVar = [] then a
      else if list_ex (\<lambda>existingEnvVar. EnvVar_Name existingEnvVar = EnvVar_Name envVar)
                (GetAdditionalEnvVars a) then a
      else AppendAdditionalEnvVar a envVar)"

definition GetAdditionalVolumes :: "ComparableAttributes option \<Rightarrow> Volume list" where
  "GetAdditionalVolumes a = (case a of None \<Rightarrow> [] | Some x \<Rightarrow> AdditionalVolumes x)"

definition AppendAdditionalVolume ::
  "ComparableAttributes option \<Rightarrow> Volume \<Rightarrow> ComparableAttributes option" where
  "AppendAdditionalVolume a volume =
     (case a of
        None \<Rightarrow> None
      | Some x \<Rightarrow> Some (x\<lparr>AdditionalVolumes := AdditionalVolumes x @ [volume]\<rparr>))"

definition AppendAdditionalVolumeIfNotExists ::
  "ComparableAttributes option \<Rightarrow> Volume \<Rightarrow> ComparableAttributes option" where
  "AppendAdditionalVolumeIfNotExists a volume =
     (if a = None then a
      else if Volume_Name volume = [] then a
      else if list_ex (\<lambda>existingVolume. Volume_Name existingVolume = Volume_Name volume)
                (GetAdditionalVolumes a) then a
      else AppendAdditionalVolume a volume)"

definition GetAdditionalVolumeMounts :: "ComparableAttributes option \<Rightarrow> VolumeMount list" where
  "GetAdditionalVolumeMounts a =
     (case a of None \<Rightarrow> [] | Some x \<Rightarrow> AdditionalVolumeMounts x)"

definition AppendAdditionalVolumeMount ::
  "ComparableAttributes option \<Rightarrow> VolumeMount \<Rightarrow> ComparableAttributes option" where
  "AppendAdditionalVolumeMount a volumeMount =
     (case a of
        None \<Rightarrow> None
      | Some x \<Rightarrow>
          Some (x\<lparr>AdditionalVolumeMounts := AdditionalVolumeMounts x @ [volumeMount]\<rparr>))"

definition AppendAdditionalVolumeMountIfNotExists ::
  "ComparableAttributes option \<Rightarrow> VolumeMount \<Rightarrow> ComparableAttributes option" where
  "AppendAdditionalVolumeMountIfNotExists a volumeMount =
     (if a = None then a
      else if VolumeMount_Name volumeMount = [] then a
      else if list_ex
                (\<lambda>existingVolumeMount.
                   VolumeMount_Name existingVolumeMount = VolumeMount_Name volumeMount)
                (GetAdditionalVolumeMounts a) then a
      else AppendAdditionalVolumeMount a volumeMount)"

section \<open>Remote-servers generator options (type\_cluster.go, second part)\<close>

text \<open>
  A host is referred to by pointer and two hosts are compared by pointer identity, so
  a host is a value of an address type \<open>'h\<close>. The excluded reconcile attributes
  are a pointer that may be nil. \<open>HostReconcileAttributes.Any\<close> and
  \<open>Host.GetReconcileAttributes\<close> are not part of the sources read here; both
  are taken as parameters (\<open>Any\<close> with its possibly-nil receiver).
\<close>

record ('h, 'a) RemoteServersGeneratorOptions =
  exclude_attributes :: "'a option"
  exclude_hosts :: "'h list"

definition Exclude ::
  "('a option \<Rightarrow> 'r \<Rightarrow> bool) \<Rightarrow> ('h \<Rightarrow> 'r) \<Rightarrow>
   ('h, 'a) RemoteServersGeneratorOptions option \<Rightarrow> 'h \<Rightarrow> bool" where
  "Exclude Any GetReconcileAttributes o' host =
     (case o' of
        None \<Rightarrow> False
      | Some opts \<Rightarrow>
          if Any (exclude_attributes opts) (GetReconcileAttributes host) then True
          else if list_ex (\<lambda>val. val = host) (exclude_hosts opts) then True
          else False)"

definition Include ::
  "('a option \<Rightarrow> 'r \<Rightarrow> bool) \<Rightarrow> ('h \<Rightarrow> 'r) \<Rightarrow>
   ('h, 'a) RemoteServersGeneratorOptions option \<Rightarrow> 'h \<Rightarrow> bool" where
  "Include Any GetReconcileAttributes o' host =
     (case o' of
        None \<Rightarrow> False
      | Some opts \<Rightarrow>
          if Any (exclude_attributes opts) (GetReconcileAttributes host) then False
          else if list_ex (\<lambda>val. val = host) (exclude_hosts opts) then False
          else True)"

section \<open>Services and their templates\<close>

type_synonym int32 = "32 word"

datatype IntOrString = FromInt int32 | FromString string

record ServicePort =
  ServicePort_Name :: string
  ServicePort_Protocol :: string
  ServicePort_Port :: int32
  ServicePort_TargetPort :: IntOrString
  ServicePort_NodePort :: int32

record ObjectMeta =
  Meta_Name :: string
  Meta_Namespace :: string
  Meta_Labels :: "string \<rightharpoonup> string"
  Meta_Annotations :: "string \<rightharpoonup> string"
  Meta_Finalizers :: "string list"
  Meta_ResourceVersion :: string

record ServiceSpec =
  Spec_Ports :: "ServicePort list"
  Spec_Selector :: "string \<rightharpoonup> string"
  Spec_ClusterIP :: string
  Spec_Type :: string
  Spec_ExternalTrafficPolicy :: string
  Spec_HealthCheckNodePort :: int32
  Spec_LoadBalancerClass :: "string option"
  Spec_PublishNotReadyAddresses :: bool

record Service =
  Service_ObjectMeta :: ObjectMeta
  Service_Spec :: ServiceSpec

record ChiServiceTemplate =
  ChiServiceTemplate_Name :: string
  ChiServiceTemplate_ObjectMeta :: ObjectMeta
  ChiServiceTemplate_Spec :: ServiceSpec

text \<open>
  Errors are values. \<open>IncorrectPort\<close> is the error of
  \<open>verifyServiceTemplatePorts\<close> (it carries what the message is formatted from),
  \<open>ServiceTypeChange\<close> the one of \<open>updateService\<close>; \<open>NotFound\<close> and
  \<open>PlatformError\<close> are what the platform client may answer.
\<close>

datatype error =
  IncorrectPort string int32
| ServiceTypeChange string string
| NotFound
| PlatformError string

section \<open>The object creator (creator.go)\<close>

record PersistentVolumeClaimSpec =
  PVC_AccessModes :: "string list"
  PVC_StorageRequest :: string

record PersistentVolumeClaim =
  PersistentVolumeClaim_Name :: string
  PersistentVolumeClaim_Spec :: PersistentVolumeClaimSpec

record ChiVolumeClaimTemplate =
  ChiVolumeClaimTemplate_Name :: string
  ChiVolumeClaimTemplate_Spec :: PersistentVolumeClaimSpec

text \<open>
  The installation and the host, with the fields and the lookups the creator uses.
  \<open>GetChiServiceTemplate\<close>, \<open>GetVolumeClaimTemplate\<close> and
  \<open>GetServiceTemplate\<close> are methods whose bodies are not part of the sources read
  here: the model holds their results (the Go pair \<open>(template, ok)\<close> as an option).
\<close>

record ClickHouseInstallation =
  chi_Namespace :: string
  GetChiServiceTemplate :: "ChiServiceTemplate option"
  GetVolumeClaimTemplate :: "string \<Rightarrow> ChiVolumeClaimTemplate option"

record ChiHost =
  host_Address_Namespace :: string
  HttpPort :: int32
  TcpPort :: int32
  InterserverHttpPort :: int32
  GetServiceTemplate :: "ChiServiceTemplate option"
  Templates_DataVolumeClaimTemplate :: string
  Templates_LogVolumeClaimTemplate :: string

text \<open>
  The creator holds the installation. The naming functions, the labeler, the string-map
  merge of package \<open>util\<close> and the default port numbers are defined outside the
  sources read here and are fields of the creator, so every result below holds for any
  choice of them.
\<close>

record Creator =
  chi :: ClickHouseInstallation
  CreateChiServiceName :: "ClickHouseInstallation \<Rightarrow> string"
  CreateStatefulSetServiceName :: "ChiHost \<Rightarrow> string"
  getLabelsServiceChi :: "string \<rightharpoonup> string"
  getSelectorChiScope :: "string \<rightharpoonup> string"
  getLabelsServiceHost :: "ChiHost \<Rightarrow> (string \<rightharpoonup> string)"
  GetSelectorHostScope :: "ChiHost \<Rightarrow> (string \<rightharpoonup> string)"
  MergeStringMaps :: "(string \<rightharpoonup> string) \<Rightarrow> (string \<rightharpoonup> string) \<Rightarrow> (string \<rightharpoonup> string)"
  chDefaultHttpPortNumber :: int32
  chDefaultTcpPortNumber :: int32
  templateDefaultsServiceClusterIP :: string

text \<open>
  Modelled from the spec: the three well-known port names, whose constants
  (\<open>chDefaultHttpPortName\<close>, \<open>chDefaultTcpPortName\<close>,
  \<open>chDefaultInterserverHttpPortName\<close>) are declared outside the sources read here.
  The spec fixes them as \<open>http\<close>, \<open>tcp\<close> and \<open>interserver-http\<close>.
\<close>

definition chDefaultHttpPortName :: string where
  "chDefaultHttpPortName = ''http''"

definition chDefaultTcpPortName :: string where
  "chDefaultTcpPortName = ''tcp''"

definition chDefaultInterserverHttpPortName :: string where
  "chDefaultInterserverHttpPortName = ''interserver-http''"

definition ProtocolTCP :: string where
  "ProtocolTCP = ''TCP''"

text \<open>The loop of \<open>verifyServiceTemplatePorts\<close>: the first port out of 1..65535 ends it.\<close>

fun verifyPorts :: "string \<Rightarrow> ServicePort list \<Rightarrow> error option" where
  "verifyPorts name [] = None"
| "verifyPorts name (servicePort # rest) =
     (if sint (ServicePort_Port servicePort) < 1 \<or> sint (ServicePort_Port servicePort) > 65535
      then Some (IncorrectPort name (ServicePort_Port servicePort))
      else verifyPorts name rest)"

definition verifyServiceTemplatePorts :: "ChiServiceTemplate \<Rightarrow> error option" where
  "verifyServiceTemplatePorts template =
     verifyPorts (ChiServiceTemplate_Name template)
       (Spec_Ports (ChiServiceTemplate_Spec template))"

text \<open>
  \<open>createServiceFromTemplate\<close> returns a pointer: nil (\<open>None\<close>) when the ports do
  not verify, the new Service otherwise.
\<close>

definition createServiceFromTemplate ::
  "Creator \<Rightarrow> ChiServiceTemplate \<Rightarrow> string \<Rightarrow> string \<Rightarrow>
   (string \<rightharpoonup> string) \<Rightarrow> (string \<rightharpoonup> string) \<Rightarrow> Service option" where
  "createServiceFromTemplate c template namespace name labels selector =
     (case verifyServiceTemplatePorts template of
        Some err \<Rightarrow> None
      | None \<Rightarrow>
          (let service = \<lparr>Service_ObjectMeta = ChiServiceTemplate_ObjectMeta template,
                          Service_Spec = ChiServiceTemplate_Spec template\<rparr>;
               service = service\<lparr>Service_ObjectMeta :=
                           (Service_ObjectMeta service)\<lparr>Meta_Name := name\<rparr>\<rparr>;
               service = service\<lparr>Service_ObjectMeta :=
                           (Service_ObjectMeta service)\<lparr>Meta_Namespace := namespace\<rparr>\<rparr>;
               service = service\<lparr>Service_ObjectMeta :=
                           (Service_ObjectMeta service)\<lparr>Meta_Labels :=
                              MergeStringMaps c (Meta_Labels (Service_ObjectMeta service))
                                labels\<rparr>\<rparr>;
               service = service\<lparr>Service_Spec :=
                           (Service_Spec service)\<lparr>Spec_Selector :=
                              MergeStringMaps c (Spec_Selector (Service_Spec service))
                                selector\<rparr>\<rparr>
           in Some service))"

text \<open>Fields a Go composite literal leaves out hold their zero value.\<close>

definition emptyObjectMeta :: ObjectMeta where
  "emptyObjectMeta =
     \<lparr>Meta_Name = [], Meta_Namespace = [], Meta_Labels = Map.empty,
      Meta_Annotations = Map.empty, Meta_Finalizers = [], Meta_ResourceVersion = []\<rparr>"

definition emptyServiceSpec :: ServiceSpec where
  "emptyServiceSpec =
     \<lparr>Spec_Ports = [], Spec_Selector = Map.empty, Spec_ClusterIP = [], Spec_Type = [],
      Spec_ExternalTrafficPolicy = [], Spec_HealthCheckNodePort = 0,
      Spec_LoadBalancerClass = None, Spec_PublishNotReadyAddresses = False\<rparr>"

definition CreateServiceChi :: "Creator \<Rightarrow> Service option" where
  "CreateServiceChi c =
     (let serviceName = CreateChiServiceName c (chi c) in
      case GetChiServiceTemplate (chi c) of
        Some template \<Rightarrow>
          createServiceFromTemplate c template (chi_Namespace (chi c)) serviceName
            (getLabelsServiceChi c) (getSelectorChiScope c)
      | None \<Rightarrow>
          Some \<lparr>Service_ObjectMeta = emptyObjectMeta
                  \<lparr>Meta_Name := serviceName,
                   Meta_Namespace := chi_Namespace (chi c),
                   Meta_Labels := getLabelsServiceChi c\<rparr>,
                Service_Spec = emptyServiceSpec
                  \<lparr>Spec_Ports :=
                     [\<lparr>ServicePort_Name = chDefaultHttpPortName,
                       ServicePort_Protocol = ProtocolTCP,
                       ServicePort_Port = chDefaultHttpPortNumber c,
                       ServicePort_TargetPort = FromString chDefaultHttpPortName,
                       ServicePort_NodePort = 0\<rparr>,
                      \<lparr>ServicePort_Name = chDefaultTcpPortName,
                       ServicePort_Protocol = ProtocolTCP,
                       ServicePort_Port = chDefaultTcpPortNumber c,
                       ServicePort_TargetPort = FromString chDefaultTcpPortName,
                       ServicePort_NodePort = 0\<rparr>],
                   Spec_Selector := getSelectorChiScope c,
                   Spec_Type := ''LoadBalancer''\<rparr>\<rparr>)"

definition CreateServiceHost :: "Creator \<Rightarrow> ChiHost \<Rightarrow> Service option" where
  "CreateServiceHost c host =
     (let serviceName = CreateStatefulSetServiceName c host in
      case GetServiceTemplate host of
        Some template \<Rightarrow>
          createServiceFromTemplate c template (host_Address_Namespace host) serviceName
            (getLabelsServiceHost c host) (GetSelectorHostScope c host)
      | None \<Rightarrow>
          Some \<lparr>Service_ObjectMeta = emptyObjectMeta
                  \<lparr>Meta_Name := serviceName,
                   Meta_Namespace := host_Address_Namespace host,
                   Meta_Labels := getLabelsServiceHost c host\<rparr>,
                Service_Spec = emptyServiceSpec
                  \<lparr>Spec_Ports :=
                     [\<lparr>ServicePort_Name = chDefaultHttpPortName,
                       ServicePort_Protocol = ProtocolTCP,
                       ServicePort_Port = HttpPort host,
                       ServicePort_TargetPort = FromInt (HttpPort host),
                       ServicePort_NodePort = 0\<rparr>,
                      \<lparr>ServicePort_Name = chDefaultTcpPortName,
                       ServicePort_Protocol = ProtocolTCP,
                       ServicePort_Port = TcpPort host,
                       ServicePort_TargetPort = FromInt (TcpPort host),
                       ServicePort_NodePort = 0\<rparr>,
                      \<lparr>ServicePort_Name = chDefaultInterserverHttpPortName,
                       ServicePort_Protocol = ProtocolTCP,
                       ServicePort_Port = InterserverHttpPort host,
                       ServicePort_TargetPort = FromInt (InterserverHttpPort host),
                       ServicePort_NodePort = 0\<rparr>],
                   Spec_Selector := GetSelectorHostScope c host,
                   Spec_ClusterIP := templateDefaultsServiceClusterIP c,
                   Spec_Type := ''ClusterIP'',
                   Spec_PublishNotReadyAddresses := True\<rparr>\<rparr>)"

subsection \<open>StatefulSets\<close>

record ContainerPort =
  ContainerPort_Name :: string
  ContainerPort_HostPort :: int32
  ContainerPort_ContainerPort :: int32
  ContainerPort_Protocol :: string

record Container =
  Container_Name :: string
  Container_Image :: string
  Container_Ports :: "ContainerPort list"
  Container_VolumeMounts :: "VolumeMount list"

text \<open>
  Of a StatefulSet the creator's port and volume steps touch the containers of the pod
  template (\<open>Spec.Template.Spec.Containers\<close>) and \<open>Spec.VolumeClaimTemplates\<close>.
\<close>

record StatefulSet =
  StatefulSet_Name :: string
  Containers :: "Container list"
  VolumeClaimTemplates :: "PersistentVolumeClaim list"

text \<open>
  The loop of \<open>ensurePortByName\<close>: the first port with the name gets host port 0 and
  the given container port, and the loop returns; \<open>None\<close> when no port has the name.
\<close>

fun ensurePortByName_loop :: "ContainerPort list \<Rightarrow> string \<Rightarrow> int32 \<Rightarrow> ContainerPort list option" where
  "ensurePortByName_loop [] name port = None"
| "ensurePortByName_loop (containerPort # rest) name port =
     (if ContainerPort_Name containerPort = name
      then Some (containerPort\<lparr>ContainerPort_HostPort := 0,
                               ContainerPort_ContainerPort := port\<rparr> # rest)
      else map_option ((#) containerPort) (ensurePortByName_loop rest name port))"

definition ensurePortByName :: "Container \<Rightarrow> string \<Rightarrow> int32 \<Rightarrow> Container" where
  "ensurePortByName container name port =
     (case ensurePortByName_loop (Container_Ports container) name port of
        Some ports \<Rightarrow> container\<lparr>Container_Ports := ports\<rparr>
      | None \<Rightarrow>
          container\<lparr>Container_Ports := Container_Ports container @
            [\<lparr>ContainerPort_Name = name, ContainerPort_HostPort = 0,
              ContainerPort_ContainerPort = port, ContainerPort_Protocol = []\<rparr>]\<rparr>)"

definition ensureNamedPortsSpecified :: "StatefulSet \<Rightarrow> ChiHost \<Rightarrow> StatefulSet" where
  "ensureNamedPortsSpecified sts host =
     sts\<lparr>Containers :=
       map (\<lambda>container.
              ensurePortByName
                (ensurePortByName
                  (ensurePortByName container chDefaultTcpPortName (TcpPort host))
                  chDefaultHttpPortName (HttpPort host))
                chDefaultInterserverHttpPortName (InterserverHttpPort host))
         (Containers sts)\<rparr>"






text \<open>What the results below read off a container and a StatefulSet.\<close>

definition portNames :: "Container \<Rightarrow> string list" where
  "portNames container = map ContainerPort_Name (Container_Ports container)"

definition portNumberByName :: "Container \<Rightarrow> string \<Rightarrow> int32 option" where
  "portNumberByName container name =
     map_option ContainerPort_ContainerPort
       (find (\<lambda>p. ContainerPort_Name p = name) (Container_Ports container))"




text \<open>The three \<open>ensurePortByName\<close> calls made for one container.\<close>

definition namedPortsStep :: "ChiHost \<Rightarrow> Container \<Rightarrow> Container" where
  "namedPortsStep host container =
     ensurePortByName
       (ensurePortByName
         (ensurePortByName container chDefaultTcpPortName (TcpPort host))
         chDefaultHttpPortName (HttpPort host))
       chDefaultInterserverHttpPortName (InterserverHttpPort host)"

definition servicePortNames :: "Service option \<Rightarrow> string list" where
  "servicePortNames s =
     (case s of None \<Rightarrow> [] | Some x \<Rightarrow> map ServicePort_Name (Spec_Ports (Service_Spec x)))"

definition servicePortProtocols :: "Service option \<Rightarrow> string list" where
  "servicePortProtocols s =
     (case s of None \<Rightarrow> [] | Some x \<Rightarrow> map ServicePort_Protocol (Spec_Ports (Service_Spec x)))"

definition servicePortNumbers :: "Service option \<Rightarrow> int32 list" where
  "servicePortNumbers s =
     (case s of None \<Rightarrow> [] | Some x \<Rightarrow> map ServicePort_Port (Spec_Ports (Service_Spec x)))"

subsection \<open>Example objects\<close>

text \<open>
  Concrete objects on which the results below are evaluated: an installation and a
  host that name no service template, and a creator over them.
\<close>

definition sample_chi :: ClickHouseInstallation where
  "sample_chi =
     \<lparr>chi_Namespace = ''prod'', GetChiServiceTemplate = None,
      GetVolumeClaimTemplate =
        (\<lambda>n. if n = ''data-volume''
              then Some \<lparr>ChiVolumeClaimTemplate_Name = ''data-volume'',
                         ChiVolumeClaimTemplate_Spec =
                           \<lparr>PVC_AccessModes = [''ReadWriteOnce''],
                            PVC_StorageRequest = ''10Gi''\<rparr>\<rparr>
              else None)\<rparr>"

definition sample_host :: ChiHost where
  "sample_host =
     \<lparr>host_Address_Namespace = ''prod'', HttpPort = 8123, TcpPort = 9001,
      InterserverHttpPort = 9009, GetServiceTemplate = None,
      Templates_DataVolumeClaimTemplate = ''data-volume'',
      Templates_LogVolumeClaimTemplate = []\<rparr>"

definition sample_creator :: Creator where
  "sample_creator =
     \<lparr>chi = sample_chi,
      CreateChiServiceName = (\<lambda>_. ''clickhouse-demo''),
      CreateStatefulSetServiceName = (\<lambda>_. ''chi-demo-0-0''),
      getLabelsServiceChi = Map.empty,
      getSelectorChiScope = Map.empty,
      getLabelsServiceHost = (\<lambda>_. Map.empty),
      GetSelectorHostScope = (\<lambda>_. Map.empty),
      MergeStringMaps = (\<lambda>dst src. src ++ dst),
      chDefaultHttpPortNumber = 8123,
      chDefaultTcpPortNumber = 9000,
      templateDefaultsServiceClusterIP = ''None''\<rparr>"

definition sample_sts :: StatefulSet where
  "sample_sts =
     \<lparr>StatefulSet_Name = ''chi-demo-0-0'',
      Containers =
        [\<lparr>Container_Name = ''clickhouse'', Container_Image = ''clickhouse-server'',
          Container_Ports =
            [\<lparr>ContainerPort_Name = ''tcp'', ContainerPort_HostPort = 0,
              ContainerPort_ContainerPort = 9000, ContainerPort_Protocol = ''TCP''\<rparr>,
             \<lparr>ContainerPort_Name = ''metrics'', ContainerPort_HostPort = 0,
              ContainerPort_ContainerPort = 9363, ContainerPort_Protocol = ''TCP''\<rparr>],
          Container_VolumeMounts = []\<rparr>],
      VolumeClaimTemplates = []\<rparr>"

definition sample_template :: "int32 list \<Rightarrow> ChiServiceTemplate" where
  "sample_template numbers =
     \<lparr>ChiServiceTemplate_Name = ''svc-template'',
      ChiServiceTemplate_ObjectMeta = emptyObjectMeta,
      ChiServiceTemplate_Spec = emptyServiceSpec
        \<lparr>Spec_Ports :=
           map (\<lambda>n. \<lparr>ServicePort_Name = ''p'', ServicePort_Protocol = ProtocolTCP,
                     ServicePort_Port = n, ServicePort_TargetPort = FromInt n,
                     ServicePort_NodePort = 0\<rparr>) numbers\<rparr>\<rparr>"

section \<open>The keeper cluster (type\_cluster.go, first part)\<close>

text \<open>
  A host is a pointer handed to the callbacks as it is: a value of an address type
  \<open>'h\<close>. Shards and replicas (types declared outside the sources read here) are
  kept with their name and their hosts. The walks other than \<open>WalkShards\<close>
  dereference their receiver, the layout and each shard or replica without a test, so
  they are modelled on values; only \<open>WalkShards\<close> tests its receiver against nil.
  Slice indices are natural numbers.
\<close>

record 'h ChkShard =
  ChkShard_Name :: string
  ChkShard_Hosts :: "'h list"

record 'h ChkReplica =
  ChkReplica_Name :: string
  ChkReplica_Hosts :: "'h list"

record 'h ChkClusterLayout =
  Shards :: "'h ChkShard list"
  Replicas :: "'h ChkReplica list"

record 'h ChkCluster =
  ChkCluster_Name :: string
  Layout :: "'h ChkClusterLayout"

text \<open>
  A callback is a Go closure: it may change the variables it captured. The model gives
  it the state \<open>'s\<close> of those variables and gets the new state back with the error.
  One loop \<open>for i := range xs { res = append(res, f(i, xs[i])) }\<close>, started at index
  \<open>i\<close> with the errors collected so far:
\<close>

fun walkItems ::
  "(nat \<Rightarrow> 'a \<Rightarrow> 's \<Rightarrow> error option \<times> 's) \<Rightarrow> nat \<Rightarrow> 'a list \<Rightarrow> error option list \<Rightarrow> 's \<Rightarrow>
   error option list \<times> 's" where
  "walkItems f i [] res s = (res, s)"
| "walkItems f i (x # xs) res s =
     (case f i x s of (e, s') \<Rightarrow> walkItems f (Suc i) xs (res @ [e]) s')"

text \<open>The two nested loops of the host walks: the outer index, then the inner one.\<close>

fun walkNested ::
  "(nat \<Rightarrow> nat \<Rightarrow> 'a \<Rightarrow> 's \<Rightarrow> error option \<times> 's) \<Rightarrow> nat \<Rightarrow> 'a list list \<Rightarrow>
   error option list \<Rightarrow> 's \<Rightarrow> error option list \<times> 's" where
  "walkNested f i [] res s = (res, s)"
| "walkNested f i (inner # rest) res s =
     (case walkItems (f i) 0 inner res s of (res', s') \<Rightarrow> walkNested f (Suc i) rest res' s')"

definition WalkShards ::
  "(nat \<Rightarrow> 'h ChkShard \<Rightarrow> 's \<Rightarrow> error option \<times> 's) \<Rightarrow> 'h ChkCluster option \<Rightarrow> 's \<Rightarrow>
   error option list \<times> 's" where
  "WalkShards f cluster s =
     (case cluster of
        None \<Rightarrow> ([], s)
      | Some c \<Rightarrow> walkItems f 0 (Shards (Layout c)) [] s)"

definition WalkReplicas ::
  "(nat \<Rightarrow> 'h ChkReplica \<Rightarrow> 's \<Rightarrow> error option \<times> 's) \<Rightarrow> 'h ChkCluster \<Rightarrow> 's \<Rightarrow>
   error option list \<times> 's" where
  "WalkReplicas f cluster s = walkItems f 0 (Replicas (Layout cluster)) [] s"

definition WalkHosts ::
  "('h \<Rightarrow> 's \<Rightarrow> error option \<times> 's) \<Rightarrow> 'h ChkCluster \<Rightarrow> 's \<Rightarrow> error option list \<times> 's" where
  "WalkHosts f cluster s =
     walkNested (\<lambda>shardIndex replicaIndex host. f host) 0
       (map ChkShard_Hosts (Shards (Layout cluster))) [] s"

definition WalkHostsByShards ::
  "(nat \<Rightarrow> nat \<Rightarrow> 'h \<Rightarrow> 's \<Rightarrow> error option \<times> 's) \<Rightarrow> 'h ChkCluster \<Rightarrow> 's \<Rightarrow>
   error option list \<times> 's" where
  "WalkHostsByShards f cluster s =
     walkNested (\<lambda>shardIndex replicaIndex host. f shardIndex replicaIndex host) 0
       (map ChkShard_Hosts (Shards (Layout cluster))) [] s"

definition WalkHostsByReplicas ::
  "(nat \<Rightarrow> nat \<Rightarrow> 'h \<Rightarrow> 's \<Rightarrow> error option \<times> 's) \<Rightarrow> 'h ChkCluster \<Rightarrow> 's \<Rightarrow>
   error option list \<times> 's" where
  "WalkHostsByReplicas f cluster s =
     walkNested (\<lambda>replicaIndex shardIndex host. f shardIndex replicaIndex host) 0
       (map ChkReplica_Hosts (Replicas (Layout cluster))) [] s"

text \<open>\<open>HostsCount\<close>: the callback increments the captured counter and returns nil.\<close>

definition HostsCount :: "'h ChkCluster \<Rightarrow> int" where
  "HostsCount cluster = snd (WalkHosts (\<lambda>host count. (None, count + 1)) cluster 0)"

text \<open>
  The needle of \<open>FindShard\<close> is an \<open>interface{}\<close>: a string, an int, or a value of
  another type, which no case of the type switch takes. The callback assigns the
  captured \<open>resultShard\<close> on every match and always returns nil.
\<close>

datatype needle = NeedleString string | NeedleInt int | NeedleOther

definition FindShard :: "'h ChkCluster option \<Rightarrow> needle \<Rightarrow> 'h ChkShard option" where
  "FindShard cluster needle =
     snd (WalkShards
       (\<lambda>index shard resultShard.
          (None,
           case needle of
             NeedleString v \<Rightarrow> if ChkShard_Name shard = v then Some shard else resultShard
           | NeedleInt v \<Rightarrow> if int index = v then Some shard else resultShard
           | NeedleOther \<Rightarrow> resultShard))
       cluster None)"

text \<open>
  \<open>FindHost\<close> hands the shard found to the shard's own \<open>FindHost\<close>, a method declared
  outside the sources read here and taken as a parameter.
\<close>

definition FindHost ::
  "('h ChkShard option \<Rightarrow> needle \<Rightarrow> 'h option) \<Rightarrow> 'h ChkCluster option \<Rightarrow> needle \<Rightarrow> needle \<Rightarrow>
   'h option" where
  "FindHost shardFindHost cluster needleShard needleHost =
     shardFindHost (FindShard cluster needleShard) needleHost"

definition FirstHost :: "'h ChkCluster \<Rightarrow> 'h option" where
  "FirstHost cluster =
     snd (WalkHosts
       (\<lambda>host result. (None, if result = None then Some host else result))
       cluster None)"

text \<open>
  What a walk is expected to do, written without the loops: the callback is run on
  each element in order, each in the state its predecessor left, and its error is
  kept whatever it is.
\<close>

fun runAll :: "('a \<Rightarrow> 's \<Rightarrow> error option \<times> 's) \<Rightarrow> 'a list \<Rightarrow> 's \<Rightarrow> error option list \<times> 's" where
  "runAll f [] s = ([], s)"
| "runAll f (x # xs) s =
     (case f x s of (e, s') \<Rightarrow> (case runAll f xs s' of (es, s'') \<Rightarrow> (e # es, s'')))"

text \<open>The elements of the host walks in iteration order, with their two indices.\<close>

definition indexedHosts :: "'h list list \<Rightarrow> (nat \<times> nat \<times> 'h) list" where
  "indexedHosts groups =
     concat (map (\<lambda>(i, inner). map (\<lambda>(j, host). (i, j, host)) (enumerate 0 inner))
       (enumerate 0 groups))"

definition shardHosts :: "'h ChkCluster \<Rightarrow> 'h list list" where
  "shardHosts cluster = map ChkShard_Hosts (Shards (Layout cluster))"

definition replicaHosts :: "'h ChkCluster \<Rightarrow> 'h list list" where
  "replicaHosts cluster = map ChkReplica_Hosts (Replicas (Layout cluster))"

section \<open>The service worker (worker-service.go)\<close>

text \<open>
  The worker talks to the platform through its controller \<open>w.c\<close> and looks at the
  context before it acts. Both are outside the worker: \<open>'p\<close> is the state of that
  outside world (the platform's objects, the context), every platform call takes it
  and returns it changed, and \<open>IsContextDone\<close> reads it, so the context may be done
  after a call that found it live. The string-map and string-array merges of package
  \<open>util\<close> are not part of the sources read here and are fields too. Log and event
  calls of the announcer change nothing the worker returns and are left out.
\<close>

record 'p worker =
  IsContextDone :: "'p \<Rightarrow> bool"
  c_getService :: "Service \<Rightarrow> 'p \<Rightarrow> (Service option \<times> error option) \<times> 'p"
  c_updateService :: "Service \<Rightarrow> 'p \<Rightarrow> error option \<times> 'p"
  c_deleteServiceIfExists :: "string \<Rightarrow> string \<Rightarrow> 'p \<Rightarrow> error option \<times> 'p"
  c_createService :: "Service \<Rightarrow> 'p \<Rightarrow> error option \<times> 'p"
  MergeStringMapsPreserve :: "(string \<rightharpoonup> string) \<Rightarrow> (string \<rightharpoonup> string) \<Rightarrow> (string \<rightharpoonup> string)"
  MergeStringArrays :: "string list \<Rightarrow> string list \<Rightarrow> string list"

text \<open>
  What the worker asked of the platform, in order: the worker's state is the outside
  world together with this record of calls.
\<close>

datatype call =
  Call_Get Service
| Call_Update Service
| Call_Delete string string
| Call_Create Service

text \<open>Constants of the Kubernetes API (\<open>k8s.io/api/core/v1\<close>).\<close>

definition ServiceTypeNodePort :: string where
  "ServiceTypeNodePort = ''NodePort''"

definition ServiceTypeLoadBalancer :: string where
  "ServiceTypeLoadBalancer = ''LoadBalancer''"

definition ServiceExternalTrafficPolicyTypeLocal :: string where
  "ServiceExternalTrafficPolicyTypeLocal = ''Local''"

text \<open>
  The inner loop of the port migration: the first current port with the new port's
  number replaces the new port, and the loop breaks.
\<close>

fun reusePort :: "ServicePort \<Rightarrow> ServicePort list \<Rightarrow> ServicePort" where
  "reusePort newPort [] = newPort"
| "reusePort newPort (curPort # rest) =
     (if ServicePort_Port newPort = ServicePort_Port curPort then curPort
      else reusePort newPort rest)"

definition updateService ::
  "'p worker \<Rightarrow> Service \<Rightarrow> Service \<Rightarrow> 'p \<times> call list \<Rightarrow> error option \<times> 'p \<times> call list" where
  "updateService w curService targetService st =
     (case st of (p, calls) \<Rightarrow>
      if IsContextDone w p then (None, (p, calls))
      else if Spec_Type (Service_Spec curService) \<noteq> Spec_Type (Service_Spec targetService)
      then (Some (ServiceTypeChange (Spec_Type (Service_Spec curService))
                    (Spec_Type (Service_Spec targetService))), (p, calls))
      else
        (let newService = targetService;
             newService = newService\<lparr>Service_ObjectMeta := (Service_ObjectMeta newService)
               \<lparr>Meta_ResourceVersion := Meta_ResourceVersion (Service_ObjectMeta curService)\<rparr>\<rparr>;
             newService = newService\<lparr>Service_Spec := (Service_Spec newService)
               \<lparr>Spec_ClusterIP := Spec_ClusterIP (Service_Spec curService)\<rparr>\<rparr>;
             serviceTypeIsNodePort =
               (Spec_Type (Service_Spec curService) = ServiceTypeNodePort \<and>
                Spec_Type (Service_Spec newService) = ServiceTypeNodePort);
             serviceTypeIsLoadBalancer =
               (Spec_Type (Service_Spec curService) = ServiceTypeLoadBalancer \<and>
                Spec_Type (Service_Spec newService) = ServiceTypeLoadBalancer);
             newService =
               (if serviceTypeIsNodePort \<or> serviceTypeIsLoadBalancer
                then newService\<lparr>Service_Spec := (Service_Spec newService)
                  \<lparr>Spec_Ports :=
                     map (\<lambda>newPort. reusePort newPort (Spec_Ports (Service_Spec curService)))
                       (Spec_Ports (Service_Spec newService))\<rparr>\<rparr>
                else newService);
             curExternalTrafficPolicyTypeLocal =
               (Spec_ExternalTrafficPolicy (Service_Spec curService) =
                  ServiceExternalTrafficPolicyTypeLocal);
             newExternalTrafficPolicyTypeLocal =
               (Spec_ExternalTrafficPolicy (Service_Spec newService) =
                  ServiceExternalTrafficPolicyTypeLocal);
             newService =
               (if curExternalTrafficPolicyTypeLocal \<and> newExternalTrafficPolicyTypeLocal
                then newService\<lparr>Service_Spec := (Service_Spec newService)
                  \<lparr>Spec_HealthCheckNodePort :=
                     Spec_HealthCheckNodePort (Service_Spec curService)\<rparr>\<rparr>
                else newService);
             newService =
               (if Spec_LoadBalancerClass (Service_Spec curService) \<noteq> None
                then newService\<lparr>Service_Spec := (Service_Spec newService)
                  \<lparr>Spec_LoadBalancerClass :=
                     Spec_LoadBalancerClass (Service_Spec curService)\<rparr>\<rparr>
                else newService);
             newService = newService\<lparr>Service_ObjectMeta := (Service_ObjectMeta newService)
               \<lparr>Meta_Labels := MergeStringMapsPreserve w
                  (Meta_Labels (Service_ObjectMeta newService))
                  (Meta_Labels (Service_ObjectMeta curService))\<rparr>\<rparr>;
             newService = newService\<lparr>Service_ObjectMeta := (Service_ObjectMeta newService)
               \<lparr>Meta_Annotations := MergeStringMapsPreserve w
                  (Meta_Annotations (Service_ObjectMeta newService))
                  (Meta_Annotations (Service_ObjectMeta curService))\<rparr>\<rparr>;
             newService = newService\<lparr>Service_ObjectMeta := (Service_ObjectMeta newService)
               \<lparr>Meta_Finalizers := MergeStringArrays w
                  (Meta_Finalizers (Service_ObjectMeta newService))
                  (Meta_Finalizers (Service_ObjectMeta curService))\<rparr>\<rparr>
         in case c_updateService w newService p of
              (err, p') \<Rightarrow> (err, (p', calls @ [Call_Update newService]))))"

definition createService ::
  "'p worker \<Rightarrow> Service \<Rightarrow> 'p \<times> call list \<Rightarrow> error option \<times> 'p \<times> call list" where
  "createService w service st =
     (case st of (p, calls) \<Rightarrow>
      if IsContextDone w p then (None, (p, calls))
      else case c_createService w service p of
             (err, p') \<Rightarrow> (err, (p', calls @ [Call_Create service])))"

definition reconcileService ::
  "'p worker \<Rightarrow> Service \<Rightarrow> 'p \<times> call list \<Rightarrow> error option \<times> 'p \<times> call list" where
  "reconcileService w service st =
     (case st of (p, calls) \<Rightarrow>
      if IsContextDone w p then (None, (p, calls))
      else
        (case c_getService w service p of
           ((curService, err), p1) \<Rightarrow>
             (case (case curService of
                      Some cur \<Rightarrow> updateService w cur service (p1, calls @ [Call_Get service])
                    | None \<Rightarrow> (err, (p1, calls @ [Call_Get service]))) of
                (err, (p2, calls2)) \<Rightarrow>
                  (case err of
                     None \<Rightarrow> (None, (p2, calls2))
                   | Some _ \<Rightarrow>
                       (case c_deleteServiceIfExists w
                               (Meta_Namespace (Service_ObjectMeta service))
                               (Meta_Name (Service_ObjectMeta service)) p2 of
                          (_, p3) \<Rightarrow>
                            createService w service
                              (p3, calls2 @ [Call_Delete
                                 (Meta_Namespace (Service_ObjectMeta service))
                                 (Meta_Name (Service_ObjectMeta service))]))))))"


text \<open>
  Example workers over a platform whose state is the list of Services it holds: one
  whose context is live, one whose context is done. Two example Services of one name,
  of type ClusterIP and NodePort.
\<close>

definition sample_worker :: "bool \<Rightarrow> Service list worker" where
  "sample_worker contextDone =
     \<lparr>IsContextDone = (\<lambda>p. contextDone),
      c_getService = (\<lambda>service p.
        (case find (\<lambda>s. Meta_Name (Service_ObjectMeta s) = Meta_Name (Service_ObjectMeta service)) p of
           Some s \<Rightarrow> ((Some s, None), p)
         | None \<Rightarrow> ((None, Some NotFound), p))),
      c_updateService = (\<lambda>service p. (None, map (\<lambda>s. if Meta_Name (Service_ObjectMeta s) = Meta_Name (Service_ObjectMeta service) then service else s) p)),
      c_deleteServiceIfExists = (\<lambda>namespace name p.
        (None, filter (\<lambda>s. Meta_Name (Service_ObjectMeta s) \<noteq> name) p)),
      c_createService = (\<lambda>service p. (None, p @ [service])),
      MergeStringMapsPreserve = (\<lambda>dst src. src ++ dst),
      MergeStringArrays = (\<lambda>dst src. dst @ filter (\<lambda>x. x \<notin> set dst) src)\<rparr>"

definition sample_service :: "string \<Rightarrow> string \<Rightarrow> Service" where
  "sample_service type clusterIP =
     \<lparr>Service_ObjectMeta = emptyObjectMeta\<lparr>Meta_Name := ''chi-demo'', Meta_Namespace := ''prod''\<rparr>,
      Service_Spec = emptyServiceSpec\<lparr>Spec_Type := type, Spec_ClusterIP := clusterIP\<rparr>\<rparr>"

text \<open>Two example clusters: one with distinct shard names, one with a repeated name.\<close>

definition sample_cluster :: "nat ChkCluster" where
  "sample_cluster =
     \<lparr>ChkCluster_Name = ''keeper'',
      Layout =
        \<lparr>Shards = [\<lparr>ChkShard_Name = ''0'', ChkShard_Hosts = [10, 11]\<rparr>,
                   \<lparr>ChkShard_Name = ''1'', ChkShard_Hosts = [20]\<rparr>],
         Replicas = [\<lparr>ChkReplica_Name = ''0'', ChkReplica_Hosts = [10, 20]\<rparr>,
                     \<lparr>ChkReplica_Name = ''1'', ChkReplica_Hosts = [11]\<rparr>]\<rparr>\<rparr>"

definition twin_cluster :: "nat ChkCluster" where
  "twin_cluster =
     \<lparr>ChkCluster_Name = ''keeper'',
      Layout =
        \<lparr>Shards = [\<lparr>ChkShard_Name = ''shard'', ChkShard_Hosts = [1]\<rparr>,
                   \<lparr>ChkShard_Name = ''shard'', ChkShard_Hosts = [2]\<rparr>],
         Replicas = []\<rparr>\<rparr>"

text \<open>
  What one guarded append does to a collection, read through the names of its
  entries: the collection is unchanged when the new name is empty or already present,
  and gains exactly the new entry at the end otherwise.
\<close>

definition guarded_append :: "('a \<Rightarrow> string) \<Rightarrow> 'a list \<Rightarrow> 'a \<Rightarrow> 'a list" where
  "guarded_append name xs x =
     (if name x = [] \<or> name x \<in> set (map name xs) then xs else xs @ [x])"

definition names_ok :: "('a \<Rightarrow> string) \<Rightarrow> 'a list \<Rightarrow> bool" where
  "names_ok name xs \<longleftrightarrow> [] \<notin> set (map name xs) \<and> distinct (map name xs)"

section \<open>Properties of ComparableAttributes\<close>

lemma guarded_append_length: "length (guarded_append name xs x) \<le> Suc (length xs)"
  by (simp add: guarded_append_def)

lemma guarded_append_names_ok:
  "names_ok name xs \<Longrightarrow> names_ok name (guarded_append name xs x)"
  by (auto simp: guarded_append_def names_ok_def)

lemma env_var_if_not_exists:
  "AppendAdditionalEnvVarIfNotExists (Some x) e =
     Some (x\<lparr>AdditionalEnvVars := guarded_append EnvVar_Name (AdditionalEnvVars x) e\<rparr>)"
  by (auto simp: AppendAdditionalEnvVarIfNotExists_def AppendAdditionalEnvVar_def
      GetAdditionalEnvVars_def guarded_append_def list_ex_iff image_iff)

lemma volume_if_not_exists:
  "AppendAdditionalVolumeIfNotExists (Some x) v =
     Some (x\<lparr>AdditionalVolumes := guarded_append Volume_Name (AdditionalVolumes x) v\<rparr>)"
  by (auto simp: AppendAdditionalVolumeIfNotExists_def AppendAdditionalVolume_def
      GetAdditionalVolumes_def guarded_append_def list_ex_iff image_iff)

lemma volume_mount_if_not_exists:
  "AppendAdditionalVolumeMountIfNotExists (Some x) m =
     Some (x\<lparr>AdditionalVolumeMounts :=
              guarded_append VolumeMount_Name (AdditionalVolumeMounts x) m\<rparr>)"
  by (auto simp: AppendAdditionalVolumeMountIfNotExists_def AppendAdditionalVolumeMount_def
      GetAdditionalVolumeMounts_def guarded_append_def list_ex_iff image_iff)

text \<open>
  Claim C10. Each of the three \<open>AppendAdditional*IfNotExists\<close> operations is a
  no-op on a nil receiver; on a non-nil receiver it touches only its own collection,
  which stays as it was when the argument's name is empty or already present and
  otherwise gains the argument as its last entry (so at most one entry per call).
  Hence a collection with no empty name and no duplicate name keeps both properties.
\<close>

theorem append_if_not_exists_guarded:
  "AppendAdditionalEnvVarIfNotExists None e = None \<and>
   AppendAdditionalVolumeIfNotExists None v = None \<and>
   AppendAdditionalVolumeMountIfNotExists None m = None \<and>
   AppendAdditionalEnvVarIfNotExists (Some x) e =
     Some (x\<lparr>AdditionalEnvVars :=
       (if EnvVar_Name e = [] \<or> EnvVar_Name e \<in> set (map EnvVar_Name (AdditionalEnvVars x))
        then AdditionalEnvVars x else AdditionalEnvVars x @ [e])\<rparr>) \<and>
   AppendAdditionalVolumeIfNotExists (Some x) v =
     Some (x\<lparr>AdditionalVolumes :=
       (if Volume_Name v = [] \<or> Volume_Name v \<in> set (map Volume_Name (AdditionalVolumes x))
        then AdditionalVolumes x else AdditionalVolumes x @ [v])\<rparr>) \<and>
   AppendAdditionalVolumeMountIfNotExists (Some x) m =
     Some (x\<lparr>AdditionalVolumeMounts :=
       (if VolumeMount_Name m = [] \<or>
           VolumeMount_Name m \<in> set (map VolumeMount_Name (AdditionalVolumeMounts x))
        then AdditionalVolumeMounts x else AdditionalVolumeMounts x @ [m])\<rparr>) \<and>
   length (GetAdditionalEnvVars (AppendAdditionalEnvVarIfNotExists a e))
     \<le> Suc (length (GetAdditionalEnvVars a)) \<and>
   length (GetAdditionalVolumes (AppendAdditionalVolumeIfNotExists a v))
     \<le> Suc (length (GetAdditionalVolumes a)) \<and>
   length (GetAdditionalVolumeMounts (AppendAdditionalVolumeMountIfNotExists a m))
     \<le> Suc (length (GetAdditionalVolumeMounts a)) \<and>
   (names_ok EnvVar_Name (GetAdditionalEnvVars a) \<longrightarrow>
      names_ok EnvVar_Name (GetAdditionalEnvVars (AppendAdditionalEnvVarIfNotExists a e))) \<and>
   (names_ok Volume_Name (GetAdditionalVolumes a) \<longrightarrow>
      names_ok Volume_Name (GetAdditionalVolumes (AppendAdditionalVolumeIfNotExists a v))) \<and>
   (names_ok VolumeMount_Name (GetAdditionalVolumeMounts a) \<longrightarrow>
      names_ok VolumeMount_Name
        (GetAdditionalVolumeMounts (AppendAdditionalVolumeMountIfNotExists a m)))"
proof -
  have nil: "AppendAdditionalEnvVarIfNotExists None e = None"
    "AppendAdditionalVolumeIfNotExists None v = None"
    "AppendAdditionalVolumeMountIfNotExists None m = None"
    by (simp_all add: AppendAdditionalEnvVarIfNotExists_def
        AppendAdditionalVolumeIfNotExists_def AppendAdditionalVolumeMountIfNotExists_def)
  have some: "AppendAdditionalEnvVarIfNotExists (Some x) e =
     Some (x\<lparr>AdditionalEnvVars :=
       (if EnvVar_Name e = [] \<or> EnvVar_Name e \<in> set (map EnvVar_Name (AdditionalEnvVars x))
        then AdditionalEnvVars x else AdditionalEnvVars x @ [e])\<rparr>)"
    "AppendAdditionalVolumeIfNotExists (Some x) v =
     Some (x\<lparr>AdditionalVolumes :=
       (if Volume_Name v = [] \<or> Volume_Name v \<in> set (map Volume_Name (AdditionalVolumes x))
        then AdditionalVolumes x else AdditionalVolumes x @ [v])\<rparr>)"
    "AppendAdditionalVolumeMountIfNotExists (Some x) m =
     Some (x\<lparr>AdditionalVolumeMounts :=
       (if VolumeMount_Name m = [] \<or>
           VolumeMount_Name m \<in> set (map VolumeMount_Name (AdditionalVolumeMounts x))
        then AdditionalVolumeMounts x else AdditionalVolumeMounts x @ [m])\<rparr>)"
    unfolding env_var_if_not_exists volume_if_not_exists volume_mount_if_not_exists
      guarded_append_def by (rule refl)+
  have len1: "length (GetAdditionalEnvVars (AppendAdditionalEnvVarIfNotExists a e))
       \<le> Suc (length (GetAdditionalEnvVars a))"
    by (cases a)
      (simp_all add: nil env_var_if_not_exists GetAdditionalEnvVars_def
        guarded_append_length)
  have len2: "length (GetAdditionalVolumes (AppendAdditionalVolumeIfNotExists a v))
       \<le> Suc (length (GetAdditionalVolumes a))"
    by (cases a)
      (simp_all add: nil volume_if_not_exists GetAdditionalVolumes_def
        guarded_append_length)
  have len3: "length (GetAdditionalVolumeMounts (AppendAdditionalVolumeMountIfNotExists a m))
       \<le> Suc (length (GetAdditionalVolumeMounts a))"
    by (cases a)
      (simp_all add: nil volume_mount_if_not_exists GetAdditionalVolumeMounts_def
        guarded_append_length)
  have inv1: "names_ok EnvVar_Name (GetAdditionalEnvVars a) \<longrightarrow>
      names_ok EnvVar_Name (GetAdditionalEnvVars (AppendAdditionalEnvVarIfNotExists a e))"
    by (cases a)
      (simp_all add: nil env_var_if_not_exists GetAdditionalEnvVars_def
        guarded_append_names_ok)
  have inv2: "names_ok Volume_Name (GetAdditionalVolumes a) \<longrightarrow>
      names_ok Volume_Name (GetAdditionalVolumes (AppendAdditionalVolumeIfNotExists a v))"
    by (cases a)
      (simp_all add: nil volume_if_not_exists GetAdditionalVolumes_def
        guarded_append_names_ok)
  have inv3: "names_ok VolumeMount_Name (GetAdditionalVolumeMounts a) \<longrightarrow>
      names_ok VolumeMount_Name
        (GetAdditionalVolumeMounts (AppendAdditionalVolumeMountIfNotExists a m))"
    by (cases a)
      (simp_all add: nil volume_mount_if_not_exists GetAdditionalVolumeMounts_def
        guarded_append_names_ok)
  from nil some len1 len2 len3 inv1 inv2 inv3 show ?thesis by blast
qed

theorem append_if_not_exists_guarded_witness:
  "names_ok EnvVar_Name [\<lparr>EnvVar_Name = ''TZ'', EnvVar_Value = ''UTC''\<rparr>] \<and>
   names_ok EnvVar_Name
     (GetAdditionalEnvVars
       (AppendAdditionalEnvVarIfNotExists
         (Some \<lparr>AdditionalEnvVars = [\<lparr>EnvVar_Name = ''TZ'', EnvVar_Value = ''UTC''\<rparr>],
                AdditionalVolumes = [], AdditionalVolumeMounts = [], SkipOwnerRef = False\<rparr>)
         \<lparr>EnvVar_Name = ''TZ'', EnvVar_Value = ''CET''\<rparr>)) \<and>
   AppendAdditionalEnvVarIfNotExists
     (Some \<lparr>AdditionalEnvVars = [\<lparr>EnvVar_Name = ''TZ'', EnvVar_Value = ''UTC''\<rparr>],
            AdditionalVolumes = [], AdditionalVolumeMounts = [], SkipOwnerRef = False\<rparr>)
     \<lparr>EnvVar_Name = ''TZ'', EnvVar_Value = ''CET''\<rparr> =
   Some \<lparr>AdditionalEnvVars = [\<lparr>EnvVar_Name = ''TZ'', EnvVar_Value = ''UTC''\<rparr>],
         AdditionalVolumes = [], AdditionalVolumeMounts = [], SkipOwnerRef = False\<rparr>"
  using append_if_not_exists_guarded
    [where a = "Some \<lparr>AdditionalEnvVars = [\<lparr>EnvVar_Name = ''TZ'', EnvVar_Value = ''UTC''\<rparr>],
                      AdditionalVolumes = [], AdditionalVolumeMounts = [],
                      SkipOwnerRef = False\<rparr>"
       and x = "\<lparr>AdditionalEnvVars = [\<lparr>EnvVar_Name = ''TZ'', EnvVar_Value = ''UTC''\<rparr>],
                 AdditionalVolumes = [], AdditionalVolumeMounts = [], SkipOwnerRef = False\<rparr>"
       and e = "\<lparr>EnvVar_Name = ''TZ'', EnvVar_Value = ''CET''\<rparr>"
       and v = "\<lparr>Volume_Name = ''data'', Volume_ConfigMap = None\<rparr>"
       and m = "\<lparr>VolumeMount_Name = ''data'', VolumeMount_MountPath = ''/data''\<rparr>"]
  by (simp add: names_ok_def GetAdditionalEnvVars_def)

section \<open>Properties of the remote-servers generator options\<close>

text \<open>
  For options that are not nil, \<open>Include\<close> is the negation of \<open>Exclude\<close>,
  whatever \<open>Any\<close> and \<open>GetReconcileAttributes\<close> compute.
\<close>

lemma Include_not_Exclude_non_nil:
  "Include Any GetReconcileAttributes (Some opts) host =
     (\<not> Exclude Any GetReconcileAttributes (Some opts) host)"
  by (simp add: Include_def Exclude_def)

text \<open>
  Claim C1 says that \<open>Include\<close> is the negation of \<open>Exclude\<close> for every option
  value, nil included. On nil options the code answers \<open>false\<close> in both methods:
  the host is neither excluded nor included, and the two answers are not negations of
  each other.
\<close>

theorem Include_Exclude_nil_options:
  "Exclude Any GetReconcileAttributes None host = False \<and>
   Include Any GetReconcileAttributes None host = False \<and>
   Include Any GetReconcileAttributes None host \<noteq>
     (\<not> Exclude Any GetReconcileAttributes None host)"
  by (simp add: Include_def Exclude_def)

section \<open>Properties of the object creator\<close>

lemma verifyPorts_None_iff:
  "verifyPorts name ports = None \<longleftrightarrow>
     (\<forall>p \<in> set ports. 1 \<le> sint (ServicePort_Port p) \<and> sint (ServicePort_Port p) \<le> 65535)"
  by (induction ports) auto

lemma verifyPorts_Some:
  "verifyPorts name ports = Some e \<Longrightarrow>
     \<exists>p \<in> set ports. e = IncorrectPort name (ServicePort_Port p) \<and>
       (sint (ServicePort_Port p) < 1 \<or> 65535 < sint (ServicePort_Port p))"
  by (induction ports) (auto split: if_splits)

lemma createServiceFromTemplate_None_iff:
  "createServiceFromTemplate c template namespace name labels selector = None \<longleftrightarrow>
     verifyServiceTemplatePorts template \<noteq> None"
  by (simp add: createServiceFromTemplate_def Let_def split: option.splits)

text \<open>
  Claim C2 says that on a port out of range no Service is returned and an error is
  surfaced. \<open>createServiceFromTemplate\<close> returns a Service pointer and nothing
  else: the error of \<open>verifyServiceTemplatePorts\<close> ends there. A template with port
  0 and one with port 65536 make the helper return two different errors, and
  \<open>createServiceFromTemplate\<close> returns the same bare nil for both.
\<close>

theorem createServiceFromTemplate_drops_error:
  "verifyServiceTemplatePorts (sample_template [0]) =
     Some (IncorrectPort ''svc-template'' 0) \<and>
   verifyServiceTemplatePorts (sample_template [65536]) =
     Some (IncorrectPort ''svc-template'' 65536) \<and>
   createServiceFromTemplate sample_creator (sample_template [0])
     ''prod'' ''svc'' Map.empty Map.empty = None \<and>
   createServiceFromTemplate sample_creator (sample_template [65536])
     ''prod'' ''svc'' Map.empty Map.empty = None"
  by (simp add: createServiceFromTemplate_def verifyServiceTemplatePorts_def
      sample_template_def emptyServiceSpec_def)

text \<open>
  Claim C2 as amended. If some declared port of the template is below 1 or above
  65535 (as the signed 32-bit number it is), \<open>createServiceFromTemplate\<close> returns
  nil, so no Service object, partial or not, comes back; the error naming the template
  and an offending port is what \<open>verifyServiceTemplatePorts\<close> hands to
  \<open>createServiceFromTemplate\<close>, which does not pass it on. If every declared port
  is within 1..65535, verification returns no error and a Service is produced; it
  carries the given name and namespace and the template's ports.
\<close>

theorem createServiceFromTemplate_port_range:
  "((\<exists>p \<in> set (Spec_Ports (ChiServiceTemplate_Spec template)).
        sint (ServicePort_Port p) < 1 \<or> 65535 < sint (ServicePort_Port p)) \<longrightarrow>
      (\<exists>p \<in> set (Spec_Ports (ChiServiceTemplate_Spec template)).
         (sint (ServicePort_Port p) < 1 \<or> 65535 < sint (ServicePort_Port p)) \<and>
         verifyServiceTemplatePorts template =
           Some (IncorrectPort (ChiServiceTemplate_Name template) (ServicePort_Port p))) \<and>
      createServiceFromTemplate c template namespace name labels selector = None) \<and>
   ((\<forall>p \<in> set (Spec_Ports (ChiServiceTemplate_Spec template)).
        1 \<le> sint (ServicePort_Port p) \<and> sint (ServicePort_Port p) \<le> 65535) \<longrightarrow>
      verifyServiceTemplatePorts template = None \<and>
      (\<exists>service.
         createServiceFromTemplate c template namespace name labels selector = Some service \<and>
         Meta_Name (Service_ObjectMeta service) = name \<and>
         Meta_Namespace (Service_ObjectMeta service) = namespace \<and>
         Spec_Ports (Service_Spec service) = Spec_Ports (ChiServiceTemplate_Spec template)))"
proof (intro conjI impI)
  assume bad: "\<exists>p \<in> set (Spec_Ports (ChiServiceTemplate_Spec template)).
        sint (ServicePort_Port p) < 1 \<or> 65535 < sint (ServicePort_Port p)"
  then have "verifyServiceTemplatePorts template \<noteq> None"
    unfolding verifyServiceTemplatePorts_def verifyPorts_None_iff by fastforce
  then obtain e where e: "verifyServiceTemplatePorts template = Some e"
    by blast
  from verifyPorts_Some [OF e [unfolded verifyServiceTemplatePorts_def]] e
  show "\<exists>p \<in> set (Spec_Ports (ChiServiceTemplate_Spec template)).
         (sint (ServicePort_Port p) < 1 \<or> 65535 < sint (ServicePort_Port p)) \<and>
         verifyServiceTemplatePorts template =
           Some (IncorrectPort (ChiServiceTemplate_Name template) (ServicePort_Port p))"
    by blast
  from e show "createServiceFromTemplate c template namespace name labels selector = None"
    by (simp add: createServiceFromTemplate_None_iff)
next
  assume good: "\<forall>p \<in> set (Spec_Ports (ChiServiceTemplate_Spec template)).
        1 \<le> sint (ServicePort_Port p) \<and> sint (ServicePort_Port p) \<le> 65535"
  then show ok: "verifyServiceTemplatePorts template = None"
    unfolding verifyServiceTemplatePorts_def verifyPorts_None_iff .
  then show "\<exists>service.
         createServiceFromTemplate c template namespace name labels selector = Some service \<and>
         Meta_Name (Service_ObjectMeta service) = name \<and>
         Meta_Namespace (Service_ObjectMeta service) = namespace \<and>
         Spec_Ports (Service_Spec service) = Spec_Ports (ChiServiceTemplate_Spec template)"
    by (simp add: createServiceFromTemplate_def Let_def)
qed

theorem createServiceFromTemplate_port_range_witness:
  "createServiceFromTemplate sample_creator (sample_template [80, 0])
     ''prod'' ''svc'' Map.empty Map.empty = None \<and>
   createServiceFromTemplate sample_creator (sample_template [65536])
     ''prod'' ''svc'' Map.empty Map.empty = None \<and>
   verifyServiceTemplatePorts (sample_template [80, 0]) = Some (IncorrectPort ''svc-template'' 0) \<and>
   servicePortNumbers (createServiceFromTemplate sample_creator (sample_template [1, 65535])
     ''prod'' ''svc'' Map.empty Map.empty) = [1, 65535]"
  using createServiceFromTemplate_port_range
    [of "sample_template [80, 0]" sample_creator "''prod''" "''svc''" Map.empty Map.empty]
    createServiceFromTemplate_port_range
    [of "sample_template [65536]" sample_creator "''prod''" "''svc''" Map.empty Map.empty]
    createServiceFromTemplate_port_range
    [of "sample_template [1, 65535]" sample_creator "''prod''" "''svc''" Map.empty Map.empty]
  by (auto simp: sample_template_def emptyServiceSpec_def servicePortNumbers_def)

text \<open>
  Claim C9 says that both default Services carry the three names. The default Service
  of the installation has two ports only, \<open>http\<close> and \<open>tcp\<close>: the interserver
  port is not exposed at that scope.
\<close>

theorem CreateServiceChi_default_two_ports:
  "servicePortNames (CreateServiceChi sample_creator) = [''http'', ''tcp''] \<and>
   ''interserver-http'' \<notin> set (servicePortNames (CreateServiceChi sample_creator))"
  by (simp add: CreateServiceChi_def sample_creator_def sample_chi_def servicePortNames_def
      emptyServiceSpec_def chDefaultHttpPortName_def chDefaultTcpPortName_def)

text \<open>
  Claim C9 as amended. When the installation names no service template,
  \<open>CreateServiceChi\<close> synthesizes a default Service with the two ports \<open>http\<close> and
  \<open>tcp\<close>, protocol TCP, at the default numbers. When the host names no service
  template, \<open>CreateServiceHost\<close> synthesizes a default Service with the three ports
  \<open>http\<close>, \<open>tcp\<close> and \<open>interserver-http\<close>, protocol TCP, at the host's numbers.
\<close>

theorem default_services_ports:
  "(GetChiServiceTemplate (chi c) = None \<longrightarrow>
      CreateServiceChi c \<noteq> None \<and>
      servicePortNames (CreateServiceChi c) = [''http'', ''tcp''] \<and>
      servicePortProtocols (CreateServiceChi c) = [''TCP'', ''TCP''] \<and>
      servicePortNumbers (CreateServiceChi c) =
        [chDefaultHttpPortNumber c, chDefaultTcpPortNumber c]) \<and>
   (GetServiceTemplate host = None \<longrightarrow>
      CreateServiceHost c host \<noteq> None \<and>
      servicePortNames (CreateServiceHost c host) = [''http'', ''tcp'', ''interserver-http''] \<and>
      servicePortProtocols (CreateServiceHost c host) = [''TCP'', ''TCP'', ''TCP''] \<and>
      servicePortNumbers (CreateServiceHost c host) =
        [HttpPort host, TcpPort host, InterserverHttpPort host])"
  by (simp add: CreateServiceChi_def CreateServiceHost_def servicePortNames_def
      servicePortProtocols_def servicePortNumbers_def emptyServiceSpec_def
      chDefaultHttpPortName_def chDefaultTcpPortName_def
      chDefaultInterserverHttpPortName_def ProtocolTCP_def)

theorem default_services_ports_witness:
  "GetChiServiceTemplate (chi sample_creator) = None \<and>
   GetServiceTemplate sample_host = None \<and>
   servicePortNames (CreateServiceChi sample_creator) = [''http'', ''tcp''] \<and>
   servicePortNames (CreateServiceHost sample_creator sample_host) =
     [''http'', ''tcp'', ''interserver-http''] \<and>
   servicePortNumbers (CreateServiceHost sample_creator sample_host) = [8123, 9001, 9009]"
  using default_services_ports [of sample_creator sample_host]
  by (simp add: sample_creator_def sample_chi_def sample_host_def)

subsection \<open>Named ports\<close>

lemma loop_None_iff:
  "ensurePortByName_loop ps n p = None \<longleftrightarrow> n \<notin> set (map ContainerPort_Name ps)"
  by (induction ps) auto

lemma loop_names:
  "ensurePortByName_loop ps n p = Some qs \<Longrightarrow>
     map ContainerPort_Name qs = map ContainerPort_Name ps"
  by (induction ps arbitrary: qs) (auto split: if_splits)

lemma loop_find_same:
  "ensurePortByName_loop ps n p = Some qs \<Longrightarrow>
     map_option ContainerPort_ContainerPort (find (\<lambda>q. ContainerPort_Name q = n) qs) = Some p"
  by (induction ps arbitrary: qs) (auto split: if_splits)

lemma loop_find_other:
  "ensurePortByName_loop ps n p = Some qs \<Longrightarrow> n' \<noteq> n \<Longrightarrow>
     find (\<lambda>q. ContainerPort_Name q = n') qs = find (\<lambda>q. ContainerPort_Name q = n') ps"
  by (induction ps arbitrary: qs) (auto split: if_splits)

lemma loop_nth_other:
  "ensurePortByName_loop ps n p = Some qs \<Longrightarrow> j < length ps \<Longrightarrow>
     ContainerPort_Name (ps ! j) \<noteq> n \<Longrightarrow> qs ! j = ps ! j"
  by (induction ps arbitrary: qs j) (auto split: if_splits simp: nth_Cons split: nat.splits)

lemma ensure_names:
  "portNames (ensurePortByName c n p) =
     (if n \<in> set (portNames c) then portNames c else portNames c @ [n])"
proof (cases "ensurePortByName_loop (Container_Ports c) n p")
  case None
  then have "n \<notin> set (portNames c)"
    by (simp add: loop_None_iff portNames_def)
  with None show ?thesis
    by (simp add: portNames_def ensurePortByName_def)
next
  case (Some qs)
  then have "ensurePortByName_loop (Container_Ports c) n p \<noteq> None" by simp
  then have "n \<in> set (portNames c)"
    unfolding loop_None_iff portNames_def by simp
  with Some show ?thesis
    by (simp add: portNames_def ensurePortByName_def loop_names)
qed

lemma find_append_None:
  "find P xs = None \<Longrightarrow> find P (xs @ ys) = find P ys"
  by (induction xs) (auto split: if_splits)

lemma find_append_Some:
  "find P xs = Some x \<Longrightarrow> find P (xs @ ys) = Some x"
  by (induction xs) (auto split: if_splits)

lemma ensure_number_same:
  "portNumberByName (ensurePortByName c n p) n = Some p"
proof (cases "ensurePortByName_loop (Container_Ports c) n p")
  case None
  then have "find (\<lambda>q. ContainerPort_Name q = n) (Container_Ports c) = None"
    by (auto simp: loop_None_iff find_None_iff)
  with None show ?thesis
    by (simp add: portNumberByName_def ensurePortByName_def find_append_None)
next
  case (Some qs)
  then show ?thesis
    by (simp add: portNumberByName_def ensurePortByName_def loop_find_same)
qed

lemma ensure_number_other:
  "n' \<noteq> n \<Longrightarrow> portNumberByName (ensurePortByName c n p) n' = portNumberByName c n'"
proof (cases "ensurePortByName_loop (Container_Ports c) n p")
  case None
  assume "n' \<noteq> n"
  then show ?thesis using None
    by (cases "find (\<lambda>q. ContainerPort_Name q = n') (Container_Ports c)")
       (simp_all add: portNumberByName_def ensurePortByName_def find_append_None find_append_Some)
next
  case (Some qs)
  assume "n' \<noteq> n"
  then show ?thesis using Some
    by (simp add: portNumberByName_def ensurePortByName_def loop_find_other)
qed

lemma ensure_nth_other:
  "j < length (Container_Ports c) \<Longrightarrow> ContainerPort_Name (Container_Ports c ! j) \<noteq> n \<Longrightarrow>
     Container_Ports (ensurePortByName c n p) ! j = Container_Ports c ! j"
  by (cases "ensurePortByName_loop (Container_Ports c) n p")
     (auto simp: ensurePortByName_def nth_append loop_nth_other)

lemma ensure_length:
  "length (Container_Ports c) \<le> length (Container_Ports (ensurePortByName c n p))"
  by (metis ensure_names portNames_def length_map length_append le_add1 order_refl)

lemma ensure_frame:
  "Container_Name (ensurePortByName c n p) = Container_Name c"
  "Container_VolumeMounts (ensurePortByName c n p) = Container_VolumeMounts c"
  by (simp_all add: ensurePortByName_def split: option.splits)

lemma ensureNamedPortsSpecified_map:
  "Containers (ensureNamedPortsSpecified sts host) = map (namedPortsStep host) (Containers sts)"
  by (simp add: ensureNamedPortsSpecified_def namedPortsStep_def)

lemmas wk_names = chDefaultTcpPortName_def chDefaultHttpPortName_def
  chDefaultInterserverHttpPortName_def

lemma step_numbers:
  "portNumberByName (namedPortsStep host c) ''tcp'' = Some (TcpPort host)"
  "portNumberByName (namedPortsStep host c) ''http'' = Some (HttpPort host)"
  "portNumberByName (namedPortsStep host c) ''interserver-http'' = Some (InterserverHttpPort host)"
  by (simp_all add: namedPortsStep_def wk_names ensure_number_same ensure_number_other)

lemma step_names:
  "portNames (namedPortsStep host c) =
     portNames c @ filter (\<lambda>n. n \<notin> set (portNames c)) [''tcp'', ''http'', ''interserver-http'']"
  by (simp add: namedPortsStep_def wk_names ensure_names)

lemma step_nth_other:
  assumes "j < length (Container_Ports c)"
    and "ContainerPort_Name (Container_Ports c ! j) \<notin> {''tcp'', ''http'', ''interserver-http''}"
  shows "Container_Ports (namedPortsStep host c) ! j = Container_Ports c ! j"
proof -
  let ?c1 = "ensurePortByName c ''tcp'' (TcpPort host)"
  let ?c2 = "ensurePortByName ?c1 ''http'' (HttpPort host)"
  let ?c3 = "ensurePortByName ?c2 ''interserver-http'' (InterserverHttpPort host)"
  have 1: "Container_Ports ?c1 ! j = Container_Ports c ! j"
    using assms by (simp add: ensure_nth_other)
  have l1: "j < length (Container_Ports ?c1)"
    using assms(1) ensure_length [of c "''tcp''" "TcpPort host"] by simp
  have 2: "Container_Ports ?c2 ! j = Container_Ports c ! j"
    using assms(2) 1 l1 by (simp add: ensure_nth_other)
  have l2: "j < length (Container_Ports ?c2)"
    using l1 ensure_length [of ?c1 "''http''" "HttpPort host"] by simp
  have 3: "Container_Ports ?c3 ! j = Container_Ports c ! j"
    using assms(2) 2 l2 by (simp add: ensure_nth_other)
  then show ?thesis by (simp add: namedPortsStep_def wk_names)
qed

text \<open>
  Claim C3. After \<open>ensureNamedPortsSpecified\<close> the StatefulSet has the same
  containers, and in every container the port found under each of the names \<open>tcp\<close>,
  \<open>http\<close> and \<open>interserver-http\<close> carries the host's number for it. The names of
  the container's ports are the ones it had, in their places, followed by those of the
  three names it lacked: a name that was present is overwritten where it stands and
  gains no duplicate, a missing one is appended. Ports under other names are untouched.
\<close>

theorem ensureNamedPortsSpecified_ports:
  "length (Containers (ensureNamedPortsSpecified sts host)) = length (Containers sts) \<and>
   (\<forall>i < length (Containers sts).
      portNumberByName (Containers (ensureNamedPortsSpecified sts host) ! i) ''tcp''
        = Some (TcpPort host) \<and>
      portNumberByName (Containers (ensureNamedPortsSpecified sts host) ! i) ''http''
        = Some (HttpPort host) \<and>
      portNumberByName (Containers (ensureNamedPortsSpecified sts host) ! i) ''interserver-http''
        = Some (InterserverHttpPort host) \<and>
      portNames (Containers (ensureNamedPortsSpecified sts host) ! i) =
        portNames (Containers sts ! i) @
        filter (\<lambda>n. n \<notin> set (portNames (Containers sts ! i)))
          [''tcp'', ''http'', ''interserver-http''] \<and>
      (\<forall>j < length (Container_Ports (Containers sts ! i)).
         ContainerPort_Name (Container_Ports (Containers sts ! i) ! j)
           \<notin> {''tcp'', ''http'', ''interserver-http''} \<longrightarrow>
         Container_Ports (Containers (ensureNamedPortsSpecified sts host) ! i) ! j =
           Container_Ports (Containers sts ! i) ! j))"
  by (simp add: ensureNamedPortsSpecified_map step_numbers step_names step_nth_other)

theorem ensureNamedPortsSpecified_ports_witness:
  "0 < length (Containers sample_sts) \<and>
   portNumberByName (Containers sample_sts ! 0) ''tcp'' = Some 9000 \<and>
   TcpPort sample_host = 9001 \<and>
   Container_Ports (Containers (ensureNamedPortsSpecified sample_sts sample_host) ! 0) =
     [\<lparr>ContainerPort_Name = ''tcp'', ContainerPort_HostPort = 0,
       ContainerPort_ContainerPort = 9001, ContainerPort_Protocol = ''TCP''\<rparr>,
      \<lparr>ContainerPort_Name = ''metrics'', ContainerPort_HostPort = 0,
       ContainerPort_ContainerPort = 9363, ContainerPort_Protocol = ''TCP''\<rparr>,
      \<lparr>ContainerPort_Name = ''http'', ContainerPort_HostPort = 0,
       ContainerPort_ContainerPort = 8123, ContainerPort_Protocol = []\<rparr>,
      \<lparr>ContainerPort_Name = ''interserver-http'', ContainerPort_HostPort = 0,
       ContainerPort_ContainerPort = 9009, ContainerPort_Protocol = []\<rparr>] \<and>
   portNumberByName (Containers (ensureNamedPortsSpecified sample_sts sample_host) ! 0) ''tcp''
     = Some 9001"
  using ensureNamedPortsSpecified_ports [of sample_sts sample_host]
  by (simp add: sample_sts_def sample_host_def ensureNamedPortsSpecified_def
      ensurePortByName_def wk_names portNumberByName_def)

subsection \<open>Volume claim templates\<close>















section \<open>Properties of the keeper cluster\<close>

lemma runAll_append:
  "runAll f (xs @ ys) s =
     (fst (runAll f xs s) @ fst (runAll f ys (snd (runAll f xs s))),
      snd (runAll f ys (snd (runAll f xs s))))"
  by (induction xs arbitrary: s) (simp_all add: case_prod_beta)

lemma runAll_map: "runAll f (map g xs) s = runAll (\<lambda>x. f (g x)) xs s"
  by (induction xs arbitrary: s) (simp_all add: case_prod_beta)

lemma runAll_length: "length (fst (runAll f xs s)) = length xs"
  by (induction xs arbitrary: s) (simp_all add: case_prod_beta)

lemma runAll_pure: "runAll (\<lambda>x s. (g x, s)) xs s = (map g xs, s)"
  by (induction xs) simp_all

lemma walkItems_runAll:
  "walkItems f i xs res s =
     (res @ fst (runAll (\<lambda>(j, x). f j x) (enumerate i xs) s),
      snd (runAll (\<lambda>(j, x). f j x) (enumerate i xs) s))"
  by (induction xs arbitrary: i res s) (simp_all add: case_prod_beta)

lemma walkNested_runAll:
  "walkNested f i groups res s =
     (res @ fst (runAll (\<lambda>(a, b, h). f a b h)
        (concat (map (\<lambda>(a, inner). map (\<lambda>(b, h). (a, b, h)) (enumerate 0 inner))
           (enumerate i groups))) s),
      snd (runAll (\<lambda>(a, b, h). f a b h)
        (concat (map (\<lambda>(a, inner). map (\<lambda>(b, h). (a, b, h)) (enumerate 0 inner))
           (enumerate i groups))) s))"
proof (induction groups arbitrary: i res s)
  case Nil
  then show ?case by simp
next
  case (Cons inner rest)
  have inner: "runAll (\<lambda>(a, b, h). f a b h) (map (\<lambda>(b, h). (i, b, h)) (enumerate 0 inner)) s =
      runAll (\<lambda>(j, x). f i j x) (enumerate 0 inner) s" for s
    unfolding runAll_map by (simp add: case_prod_unfold)
  show ?case
    unfolding walkNested.simps walkItems_runAll enumerate_simps list.map concat.simps
      prod.case Cons.IH runAll_append inner
    by simp
qed

lemma indexed_hosts_from:
  "map (\<lambda>(a, b, h). h)
     (concat (map (\<lambda>(a, inner). map (\<lambda>(b, h). (a, b, h)) (enumerate 0 inner))
        (enumerate i groups))) = concat groups"
proof (induction groups arbitrary: i)
  case Nil
  then show ?case by simp
next
  case (Cons inner rest)
  have "map (\<lambda>(a, b, h). h) (map (\<lambda>(b, h). (i, b, h)) (enumerate 0 inner)) =
      map snd (enumerate 0 inner)"
    by (simp add: case_prod_unfold comp_def)
  then have "map (\<lambda>(a, b, h). h) (map (\<lambda>(b, h). (i, b, h)) (enumerate 0 inner)) = inner"
    by (simp only: map_snd_enumerate)
  with Cons.IH [of "Suc i"] show ?case by simp
qed

lemma indexedHosts_hosts: "map (\<lambda>(a, b, h). h) (indexedHosts groups) = concat groups"
  unfolding indexedHosts_def by (rule indexed_hosts_from)

lemma WalkShards_runAll:
  "WalkShards f (Some c) s = runAll (\<lambda>(i, shard). f i shard) (enumerate 0 (Shards (Layout c))) s"
  by (simp add: WalkShards_def walkItems_runAll)

lemma WalkReplicas_runAll:
  "WalkReplicas f c s =
     runAll (\<lambda>(i, replica). f i replica) (enumerate 0 (Replicas (Layout c))) s"
  by (simp add: WalkReplicas_def walkItems_runAll)

lemma WalkHostsByShards_runAll:
  "WalkHostsByShards f c s =
     runAll (\<lambda>(shard, replica, host). f shard replica host) (indexedHosts (shardHosts c)) s"
  unfolding WalkHostsByShards_def walkNested_runAll indexedHosts_def shardHosts_def
  by simp

lemma WalkHostsByReplicas_runAll:
  "WalkHostsByReplicas f c s =
     runAll (\<lambda>(replica, shard, host). f shard replica host) (indexedHosts (replicaHosts c)) s"
  unfolding WalkHostsByReplicas_def walkNested_runAll indexedHosts_def replicaHosts_def
  by simp

lemma WalkHosts_runAll:
  "WalkHosts f c s = runAll f (concat (shardHosts c)) s"
proof -
  have "WalkHosts f c s = runAll (\<lambda>(a, b, h). f h) (indexedHosts (shardHosts c)) s"
    unfolding WalkHosts_def walkNested_runAll indexedHosts_def shardHosts_def by simp
  also have "\<dots> = runAll f (map (\<lambda>(a, b, h). h) (indexedHosts (shardHosts c))) s"
    unfolding runAll_map by (simp add: case_prod_unfold)
  finally show ?thesis by (simp only: indexedHosts_hosts)
qed

lemma indexedHosts_length: "length (indexedHosts groups) = length (concat groups)"
  by (metis indexedHosts_hosts length_map)

lemma count_runAll:
  "snd (runAll (\<lambda>host count. (None, count + 1)) xs (n::int)) = n + int (length xs)"
  by (induction xs arbitrary: n) (simp_all add: case_prod_beta)

lemma HostsCount_eq: "HostsCount c = int (length (concat (shardHosts c)))"
  by (simp add: HostsCount_def WalkHosts_runAll count_runAll)

text \<open>
  Claim C7. Each of the five walks runs the callback on every element in iteration
  order, each call in the state the previous one left, and returns the callbacks'
  errors one per element in that order, whatever they are: an error ends nothing.
  \<open>WalkShards\<close> visits the shards with their indices (none for a nil cluster),
  \<open>WalkReplicas\<close> the replicas, \<open>WalkHosts\<close> and \<open>WalkHostsByShards\<close> the hosts
  shard after shard, \<open>WalkHostsByReplicas\<close> the hosts replica after replica. The
  length of the returned slice is the number of elements, and \<open>HostsCount\<close> is the
  number of hosts of all shards.
\<close>

theorem walks_visit_every_element:
  "WalkShards f None s = ([], s) \<and>
   WalkShards f (Some c) s =
     runAll (\<lambda>(index, shard). f index shard) (enumerate 0 (Shards (Layout c))) s \<and>
   WalkReplicas g c s =
     runAll (\<lambda>(index, replica). g index replica) (enumerate 0 (Replicas (Layout c))) s \<and>
   WalkHosts h c s = runAll h (concat (shardHosts c)) s \<and>
   WalkHostsByShards k c s =
     runAll (\<lambda>(shard, replica, host). k shard replica host) (indexedHosts (shardHosts c)) s \<and>
   WalkHostsByReplicas k c s =
     runAll (\<lambda>(replica, shard, host). k shard replica host) (indexedHosts (replicaHosts c)) s \<and>
   length (fst (WalkShards f (Some c) s)) = length (Shards (Layout c)) \<and>
   length (fst (WalkReplicas g c s)) = length (Replicas (Layout c)) \<and>
   length (fst (WalkHosts h c s)) = length (concat (shardHosts c)) \<and>
   length (fst (WalkHostsByShards k c s)) = length (concat (shardHosts c)) \<and>
   length (fst (WalkHostsByReplicas k c s)) = length (concat (replicaHosts c)) \<and>
   fst (WalkShards (\<lambda>index shard st. (e1 index shard, st)) (Some c) s) =
     map (\<lambda>(index, shard). e1 index shard) (enumerate 0 (Shards (Layout c))) \<and>
   fst (WalkHosts (\<lambda>host st. (e2 host, st)) c s) = map e2 (concat (shardHosts c)) \<and>
   HostsCount c = int (length (concat (shardHosts c)))"
proof -
  have pure1: "runAll (\<lambda>(index, shard) st. (e1 index shard, st)) xs s =
      (map (\<lambda>(index, shard). e1 index shard) xs, s)" for xs
    using runAll_pure [of "\<lambda>(index, shard). e1 index shard" xs s]
    by (simp add: case_prod_unfold)
  show ?thesis
    unfolding WalkShards_runAll WalkReplicas_runAll WalkHosts_runAll WalkHostsByShards_runAll
      WalkHostsByReplicas_runAll runAll_length HostsCount_eq pure1 runAll_pure
    by (simp add: WalkShards_def indexedHosts_length)
qed

theorem walks_visit_every_element_witness:
  "WalkHosts (\<lambda>host visited. (Some (PlatformError ''down''), visited @ [host]))
     sample_cluster [] =
     ([Some (PlatformError ''down''), Some (PlatformError ''down''),
       Some (PlatformError ''down'')], [10, 11, 20]) \<and>
   WalkHostsByReplicas
     (\<lambda>shard replica host visited. (None, visited @ [(shard, replica, host)]))
     sample_cluster [] =
     ([None, None, None], [(0, 0, 10), (1, 0, 20), (0, 1, 11)]) \<and>
   HostsCount sample_cluster = 3"
  using walks_visit_every_element
    [where c = sample_cluster and s = "[]"
       and h = "\<lambda>host visited. (Some (PlatformError ''down''), visited @ [host])"]
    walks_visit_every_element
    [where c = sample_cluster and s = "[]"
       and k = "\<lambda>shard replica host visited. (None, visited @ [(shard, replica, host)])"]
  by (simp add: sample_cluster_def shardHosts_def replicaHosts_def indexedHosts_def
      enumerate_eq_zip)

lemma runAll_keep: "snd (runAll (\<lambda>x r. (None, r)) xs r0) = r0"
  by (simp add: runAll_pure)

lemma find_append:
  "find P (xs @ ys) = (case find P xs of None \<Rightarrow> find P ys | Some x \<Rightarrow> Some x)"
  by (induction xs) simp_all

lemma find_last_runAll:
  "snd (runAll (\<lambda>(index, shard) r.
          (None, if ChkShard_Name shard = v then Some shard else r))
        (enumerate i shards) r0) =
     (case find (\<lambda>shard. ChkShard_Name shard = v) (rev shards) of
        None \<Rightarrow> r0 | Some shard \<Rightarrow> Some shard)"
  by (induction shards arbitrary: i r0)
     (simp_all add: case_prod_beta find_append split: option.splits)

lemma find_index_runAll:
  "snd (runAll (\<lambda>(index, shard) r. (None, if int index = k then Some shard else r))
        (enumerate i shards) r0) =
     (if int i \<le> k \<and> k < int i + int (length shards)
      then Some (shards ! (nat k - i)) else r0)"
proof (induction shards arbitrary: i r0)
  case Nil
  then show ?case by auto
next
  case (Cons x xs)
  have step: "snd (runAll (\<lambda>(index, shard) r. (None, if int index = k then Some shard else r))
        (enumerate i (x # xs)) r0) =
      snd (runAll (\<lambda>(index, shard) r. (None, if int index = k then Some shard else r))
        (enumerate (Suc i) xs) (if int i = k then Some x else r0))"
    by (simp add: case_prod_beta)
  have idx: "int (Suc i) \<le> k \<Longrightarrow> nat k - i = Suc (nat k - Suc i)"
    by linarith
  show ?case
    unfolding step Cons.IH using idx by auto
qed

lemma first_runAll:
  "snd (runAll (\<lambda>host result. (None, if result = None then Some host else result)) xs r0) =
     (case r0 of Some r \<Rightarrow> Some r | None \<Rightarrow> (case xs of [] \<Rightarrow> None | host # _ \<Rightarrow> Some host))"
  by (induction xs arbitrary: r0) (simp_all add: case_prod_beta split: option.splits)

lemma find_rev_distinct:
  "distinct (map f xs) \<Longrightarrow> find (\<lambda>x. f x = v) (rev xs) = find (\<lambda>x. f x = v) xs"
proof (induction xs)
  case Nil
  then show ?case by simp
next
  case (Cons x xs)
  then have IH: "find (\<lambda>x. f x = v) (rev xs) = find (\<lambda>x. f x = v) xs" by simp
  show ?case
  proof (cases "f x = v")
    case True
    with Cons.prems have "v \<notin> f ` set xs" by auto
    then have "find (\<lambda>x. f x = v) xs = None"
      unfolding find_None_iff by blast
    with True IH show ?thesis by (simp add: find_append)
  next
    case False
    with IH show ?thesis by (simp add: find_append split: option.splits)
  qed
qed

text \<open>
  Claim C8 says that \<open>FindShard\<close> returns the first match and, of two shards with the
  same name, the one with the lower index. The callback of \<open>FindShard\<close> assigns the
  result on every match and the walk never stops, so the last match stays: of two
  shards named alike the one at index 1 is returned.
\<close>

theorem FindShard_last_match:
  "FindShard (Some twin_cluster) (NeedleString ''shard'') =
     Some \<lparr>ChkShard_Name = ''shard'', ChkShard_Hosts = [2]\<rparr> \<and>
   Shards (Layout twin_cluster) ! 0 = \<lparr>ChkShard_Name = ''shard'', ChkShard_Hosts = [1]\<rparr> \<and>
   Shards (Layout twin_cluster) ! 1 = \<lparr>ChkShard_Name = ''shard'', ChkShard_Hosts = [2]\<rparr> \<and>
   FindShard (Some twin_cluster) (NeedleString ''shard'') \<noteq>
     Some (Shards (Layout twin_cluster) ! 0)"
  by (simp add: FindShard_def WalkShards_def twin_cluster_def)

text \<open>
  Claim C8 as amended. \<open>FindShard\<close> by name returns the last shard in iteration
  order that carries the name (the only one, hence also the first, when the shards'
  names are distinct), and nil when none does or the cluster is nil; by index it
  returns the shard at that index, and nil when the index is out of range; a needle
  that is neither a string nor an int finds nothing. \<open>FindHost\<close> is the shard's own
  \<open>FindHost\<close> on the shard that \<open>FindShard\<close> returns. \<open>FirstHost\<close> returns the
  first host in shard-then-replica order, and nil when there is no host.
\<close>

theorem lookups_by_walk:
  "FindShard None needle = (None :: 'h ChkShard option) \<and>
   FindShard (Some (c :: 'h ChkCluster)) (NeedleString v) =
     find (\<lambda>shard. ChkShard_Name shard = v) (rev (Shards (Layout c))) \<and>
   (distinct (map ChkShard_Name (Shards (Layout c))) \<longrightarrow>
      FindShard (Some c) (NeedleString v) =
        find (\<lambda>shard. ChkShard_Name shard = v) (Shards (Layout c))) \<and>
   FindShard (Some c) (NeedleInt k) =
     (if 0 \<le> k \<and> k < int (length (Shards (Layout c)))
      then Some (Shards (Layout c) ! nat k) else None) \<and>
   FindShard (Some c) NeedleOther = None \<and>
   FindHost shardFindHost cluster needleShard needleHost =
     shardFindHost (FindShard cluster needleShard) needleHost \<and>
   FirstHost c = (case concat (shardHosts c) of [] \<Rightarrow> None | host # _ \<Rightarrow> Some host)"
proof -
  have nil: "FindShard None needle = (None :: 'h ChkShard option)"
    by (simp add: FindShard_def WalkShards_def)
  have name: "FindShard (Some c) (NeedleString v) =
     find (\<lambda>shard. ChkShard_Name shard = v) (rev (Shards (Layout c)))"
    unfolding FindShard_def WalkShards_runAll needle.case
    using find_last_runAll [of v 0 "Shards (Layout c)" None]
    by (simp add: case_prod_unfold split: option.splits)
  have index: "FindShard (Some c) (NeedleInt k) =
     (if 0 \<le> k \<and> k < int (length (Shards (Layout c)))
      then Some (Shards (Layout c) ! nat k) else None)"
    unfolding FindShard_def WalkShards_runAll needle.case
    using find_index_runAll [of k 0 "Shards (Layout c)" None]
    by (simp add: case_prod_unfold)
  have other: "FindShard (Some c) NeedleOther = None"
    unfolding FindShard_def WalkShards_runAll needle.case
    by (simp add: case_prod_unfold runAll_keep)
  have first: "FirstHost c =
      (case concat (shardHosts c) of [] \<Rightarrow> None | host # _ \<Rightarrow> Some host)"
    by (simp add: FirstHost_def WalkHosts_runAll first_runAll)
  from nil name index other first show ?thesis
    by (simp add: find_rev_distinct FindHost_def)
qed

theorem lookups_by_walk_witness:
  "distinct (map ChkShard_Name (Shards (Layout sample_cluster))) \<and>
   FindShard (Some sample_cluster) (NeedleString ''1'') =
     Some \<lparr>ChkShard_Name = ''1'', ChkShard_Hosts = [20]\<rparr> \<and>
   FindShard (Some sample_cluster) (NeedleInt 0) =
     Some \<lparr>ChkShard_Name = ''0'', ChkShard_Hosts = [10, 11]\<rparr> \<and>
   FindShard (Some sample_cluster) (NeedleInt 2) = None \<and>
   FirstHost sample_cluster = Some 10"
  using lookups_by_walk [where c = sample_cluster and v = "''1''" and k = 0
      and needle = NeedleOther and shardFindHost = "\<lambda>shard needle. None" and cluster = None
      and needleShard = NeedleOther and needleHost = NeedleOther]
    lookups_by_walk [where c = sample_cluster and v = "''1''" and k = 2
      and needle = NeedleOther and shardFindHost = "\<lambda>shard needle. None" and cluster = None
      and needleShard = NeedleOther and needleHost = NeedleOther]
  by (auto simp add: sample_cluster_def shardHosts_def)

section \<open>Properties of the service worker\<close>


lemma updateService_done:
  "IsContextDone w p \<Longrightarrow> updateService w cur target (p, calls) = (None, (p, calls))"
  by (simp add: updateService_def)

lemma updateService_type_change:
  "\<not> IsContextDone w p \<Longrightarrow>
   Spec_Type (Service_Spec cur) \<noteq> Spec_Type (Service_Spec target) \<Longrightarrow>
   updateService w cur target (p, calls) =
     (Some (ServiceTypeChange (Spec_Type (Service_Spec cur)) (Spec_Type (Service_Spec target))),
      (p, calls))"
  by (simp add: updateService_def)










lemma createService_done:
  "IsContextDone w p \<Longrightarrow> createService w service (p, calls) = (None, (p, calls))"
  by (simp add: createService_def)

lemma createService_live:
  "\<not> IsContextDone w p \<Longrightarrow>
   createService w service (p, calls) =
     (fst (c_createService w service p),
      (snd (c_createService w service p), calls @ [Call_Create service]))"
  by (simp add: createService_def case_prod_beta)

lemma reconcileService_done:
  "IsContextDone w p \<Longrightarrow> reconcileService w service (p, calls) = (None, (p, calls))"
  by (simp add: reconcileService_def)

lemma reconcileService_failed:
  assumes "\<not> IsContextDone w p"
    and "c_getService w service p = ((found, getErr), p1)"
    and "(case found of
            Some cur \<Rightarrow> updateService w cur service (p1, calls @ [Call_Get service])
          | None \<Rightarrow> (getErr, (p1, calls @ [Call_Get service]))) = (Some e, (p2, calls2))"
    and "c_deleteServiceIfExists w (Meta_Namespace (Service_ObjectMeta service))
           (Meta_Name (Service_ObjectMeta service)) p2 = (delErr, p3)"
  shows "reconcileService w service (p, calls) =
     createService w service
       (p3, calls2 @ [Call_Delete (Meta_Namespace (Service_ObjectMeta service))
                        (Meta_Name (Service_ObjectMeta service))])"
  using assms by (simp add: reconcileService_def)

text \<open>
  Claim C6 says that on a type change \<open>updateService\<close> fails with an error, and that
  a failed update is followed by exactly one Create attempt. Both functions look at the
  context first: when it is done, \<open>updateService\<close> returns nil before it compares the
  types, and \<open>createService\<close> returns nil without calling the platform.
\<close>

theorem updateService_done_no_error:
  "IsContextDone (sample_worker True) [] \<and>
   Spec_Type (Service_Spec (sample_service ''ClusterIP'' ''10.0.0.5'')) \<noteq>
     Spec_Type (Service_Spec (sample_service ''NodePort'' [])) \<and>
   updateService (sample_worker True) (sample_service ''ClusterIP'' ''10.0.0.5'')
     (sample_service ''NodePort'' []) ([], []) = (None, ([], [])) \<and>
   createService (sample_worker True) (sample_service ''NodePort'' []) ([], []) =
     (None, ([], []))"
  by (simp add: updateService_def createService_def sample_worker_def sample_service_def)

text \<open>
  Claim C6 as amended. With a done context \<open>updateService\<close>, \<open>createService\<close> and
  \<open>reconcileService\<close> return nil and call nothing. With a live context and differing
  types \<open>updateService\<close> returns the type-change error, naming both types, and
  submits nothing. In \<open>reconcileService\<close>, when the Service found has another type,
  when none is found and the lookup returned an error, and more generally whenever the
  update returned an error, the worker deletes by namespace and name, ignores what the
  deletion answers, and then, the context being live, asks the platform to create the
  Service exactly once and returns that call's error as its own; with the context done
  by then it returns nil with no Create.
\<close>

theorem reconcileService_recreates:
  "(IsContextDone w p \<longrightarrow>
      updateService w cur target (p, calls) = (None, (p, calls)) \<and>
      createService w service (p, calls) = (None, (p, calls)) \<and>
      reconcileService w service (p, calls) = (None, (p, calls))) \<and>
   (\<not> IsContextDone w p \<and>
    Spec_Type (Service_Spec cur) \<noteq> Spec_Type (Service_Spec target) \<longrightarrow>
      updateService w cur target (p, calls) =
        (Some (ServiceTypeChange (Spec_Type (Service_Spec cur))
                 (Spec_Type (Service_Spec target))), (p, calls))) \<and>
   (\<not> IsContextDone w p \<and>
    c_getService w service p = ((Some cur, getErr), p1) \<and>
    \<not> IsContextDone w p1 \<and>
    Spec_Type (Service_Spec cur) \<noteq> Spec_Type (Service_Spec service) \<and>
    c_deleteServiceIfExists w (Meta_Namespace (Service_ObjectMeta service))
      (Meta_Name (Service_ObjectMeta service)) p1 = (delErr, p3) \<and>
    \<not> IsContextDone w p3 \<longrightarrow>
      reconcileService w service (p, calls) =
        (fst (c_createService w service p3),
         (snd (c_createService w service p3),
          calls @ [Call_Get service,
                   Call_Delete (Meta_Namespace (Service_ObjectMeta service))
                     (Meta_Name (Service_ObjectMeta service)),
                   Call_Create service]))) \<and>
   (\<not> IsContextDone w p \<and>
    c_getService w service p = ((None, Some e), p1) \<and>
    c_deleteServiceIfExists w (Meta_Namespace (Service_ObjectMeta service))
      (Meta_Name (Service_ObjectMeta service)) p1 = (delErr, p3) \<and>
    \<not> IsContextDone w p3 \<longrightarrow>
      reconcileService w service (p, calls) =
        (fst (c_createService w service p3),
         (snd (c_createService w service p3),
          calls @ [Call_Get service,
                   Call_Delete (Meta_Namespace (Service_ObjectMeta service))
                     (Meta_Name (Service_ObjectMeta service)),
                   Call_Create service]))) \<and>
   (\<not> IsContextDone w p \<and>
    c_getService w service p = ((Some cur, getErr), p1) \<and>
    updateService w cur service (p1, calls @ [Call_Get service]) = (Some e, (p2, calls2)) \<and>
    c_deleteServiceIfExists w (Meta_Namespace (Service_ObjectMeta service))
      (Meta_Name (Service_ObjectMeta service)) p2 = (delErr, p3) \<longrightarrow>
      (\<not> IsContextDone w p3 \<longrightarrow>
         reconcileService w service (p, calls) =
           (fst (c_createService w service p3),
            (snd (c_createService w service p3),
             calls2 @ [Call_Delete (Meta_Namespace (Service_ObjectMeta service))
                         (Meta_Name (Service_ObjectMeta service)),
                       Call_Create service]))) \<and>
      (IsContextDone w p3 \<longrightarrow>
         reconcileService w service (p, calls) =
           (None,
            (p3, calls2 @ [Call_Delete (Meta_Namespace (Service_ObjectMeta service))
                             (Meta_Name (Service_ObjectMeta service))]))))"
proof (intro conjI impI; (elim conjE)?)
  assume "IsContextDone w p"
  then show "updateService w cur target (p, calls) = (None, (p, calls))"
    "createService w service (p, calls) = (None, (p, calls))"
    "reconcileService w service (p, calls) = (None, (p, calls))"
    by (simp_all add: updateService_done createService_done reconcileService_done)
next
  assume "\<not> IsContextDone w p"
    "Spec_Type (Service_Spec cur) \<noteq> Spec_Type (Service_Spec target)"
  then show "updateService w cur target (p, calls) =
        (Some (ServiceTypeChange (Spec_Type (Service_Spec cur))
                 (Spec_Type (Service_Spec target))), (p, calls))"
    by (rule updateService_type_change)
next
  assume live: "\<not> IsContextDone w p"
    and get: "c_getService w service p = ((Some cur, getErr), p1)"
    and live1: "\<not> IsContextDone w p1"
    and diff: "Spec_Type (Service_Spec cur) \<noteq> Spec_Type (Service_Spec service)"
    and del: "c_deleteServiceIfExists w (Meta_Namespace (Service_ObjectMeta service))
      (Meta_Name (Service_ObjectMeta service)) p1 = (delErr, p3)"
    and live3: "\<not> IsContextDone w p3"
  have upd: "(case Some cur of
            Some cur \<Rightarrow> updateService w cur service (p1, calls @ [Call_Get service])
          | None \<Rightarrow> (getErr, (p1, calls @ [Call_Get service]))) =
      (Some (ServiceTypeChange (Spec_Type (Service_Spec cur))
                 (Spec_Type (Service_Spec service))), (p1, calls @ [Call_Get service]))"
    using live1 diff by (simp add: updateService_type_change)
  show "reconcileService w service (p, calls) =
        (fst (c_createService w service p3),
         (snd (c_createService w service p3),
          calls @ [Call_Get service,
                   Call_Delete (Meta_Namespace (Service_ObjectMeta service))
                     (Meta_Name (Service_ObjectMeta service)),
                   Call_Create service]))"
    unfolding reconcileService_failed [OF live get upd del]
    using live3 by (simp add: createService_live)
next
  assume live: "\<not> IsContextDone w p"
    and get: "c_getService w service p = ((None, Some e), p1)"
    and del: "c_deleteServiceIfExists w (Meta_Namespace (Service_ObjectMeta service))
      (Meta_Name (Service_ObjectMeta service)) p1 = (delErr, p3)"
    and live3: "\<not> IsContextDone w p3"
  have upd: "(case None of
            Some cur \<Rightarrow> updateService w cur service (p1, calls @ [Call_Get service])
          | None \<Rightarrow> (Some e, (p1, calls @ [Call_Get service]))) =
      (Some e, (p1, calls @ [Call_Get service]))"
    by simp
  show "reconcileService w service (p, calls) =
        (fst (c_createService w service p3),
         (snd (c_createService w service p3),
          calls @ [Call_Get service,
                   Call_Delete (Meta_Namespace (Service_ObjectMeta service))
                     (Meta_Name (Service_ObjectMeta service)),
                   Call_Create service]))"
    unfolding reconcileService_failed [OF live get upd del]
    using live3 by (simp add: createService_live)
next
  assume live: "\<not> IsContextDone w p"
    and get: "c_getService w service p = ((Some cur, getErr), p1)"
    and u: "updateService w cur service (p1, calls @ [Call_Get service]) = (Some e, (p2, calls2))"
    and del: "c_deleteServiceIfExists w (Meta_Namespace (Service_ObjectMeta service))
      (Meta_Name (Service_ObjectMeta service)) p2 = (delErr, p3)"
  have upd: "(case Some cur of
            Some cur \<Rightarrow> updateService w cur service (p1, calls @ [Call_Get service])
          | None \<Rightarrow> (getErr, (p1, calls @ [Call_Get service]))) = (Some e, (p2, calls2))"
    using u by simp
  note r = reconcileService_failed [OF live get upd del]
  {
    assume "\<not> IsContextDone w p3"
    then show "reconcileService w service (p, calls) =
           (fst (c_createService w service p3),
            (snd (c_createService w service p3),
             calls2 @ [Call_Delete (Meta_Namespace (Service_ObjectMeta service))
                         (Meta_Name (Service_ObjectMeta service)),
                       Call_Create service]))"
      unfolding r by (simp add: createService_live)
  }
  {
    assume "IsContextDone w p3"
    then show "reconcileService w service (p, calls) =
           (None,
            (p3, calls2 @ [Call_Delete (Meta_Namespace (Service_ObjectMeta service))
                             (Meta_Name (Service_ObjectMeta service))]))"
      unfolding r by (simp add: createService_done)
  }
qed

theorem reconcileService_recreates_witness:
  "\<not> IsContextDone (sample_worker False) [sample_service ''ClusterIP'' ''10.0.0.5''] \<and>
   c_getService (sample_worker False) (sample_service ''NodePort'' [])
     [sample_service ''ClusterIP'' ''10.0.0.5''] =
     ((Some (sample_service ''ClusterIP'' ''10.0.0.5''), None),
      [sample_service ''ClusterIP'' ''10.0.0.5'']) \<and>
   Spec_Type (Service_Spec (sample_service ''ClusterIP'' ''10.0.0.5'')) \<noteq>
     Spec_Type (Service_Spec (sample_service ''NodePort'' [])) \<and>
   reconcileService (sample_worker False) (sample_service ''NodePort'' [])
     ([sample_service ''ClusterIP'' ''10.0.0.5''], []) =
     (None, [sample_service ''NodePort'' []],
      [Call_Get (sample_service ''NodePort'' []), Call_Delete ''prod'' ''chi-demo'',
       Call_Create (sample_service ''NodePort'' [])])"
proof -
  let ?w = "sample_worker False :: Service list worker"
  let ?cur = "sample_service ''ClusterIP'' ''10.0.0.5''"
  let ?svc = "sample_service ''NodePort'' []"
  have live: "\<not> IsContextDone ?w q" for q
    by (simp add: sample_worker_def)
  have get: "c_getService ?w ?svc [?cur] = ((Some ?cur, None), [?cur])"
    by (simp add: sample_worker_def sample_service_def emptyObjectMeta_def)
  have diff: "Spec_Type (Service_Spec ?cur) \<noteq> Spec_Type (Service_Spec ?svc)"
    by (simp add: sample_service_def)
  have del: "c_deleteServiceIfExists ?w (Meta_Namespace (Service_ObjectMeta ?svc))
      (Meta_Name (Service_ObjectMeta ?svc)) [?cur] = (None, [])"
    by (simp add: sample_worker_def sample_service_def emptyObjectMeta_def)
  have cr: "c_createService ?w ?svc [] = (None, [?svc])"
    by (simp add: sample_worker_def)
  have names: "Meta_Namespace (Service_ObjectMeta ?svc) = ''prod''"
    "Meta_Name (Service_ObjectMeta ?svc) = ''chi-demo''"
    by (simp_all add: sample_service_def emptyObjectMeta_def)
  from reconcileService_recreates
    [where w = ?w and p = "[?cur]" and service = ?svc and cur = ?cur and getErr = None
       and ?p1.0 = "[?cur]" and delErr = None and ?p3.0 = "[]" and calls = "[]"
       and target = ?svc]
    live get diff del
  have "reconcileService ?w ?svc ([?cur], []) =
        (fst (c_createService ?w ?svc []),
         (snd (c_createService ?w ?svc []),
          [] @ [Call_Get ?svc,
                Call_Delete (Meta_Namespace (Service_ObjectMeta ?svc))
                  (Meta_Name (Service_ObjectMeta ?svc)),
                Call_Create ?svc]))"
    by blast
  with live get diff show ?thesis by (simp add: cr names)
qed

end
